theory Spec2Isabelle
  imports Complex_Main
begin

section \<open>JavaScript values used by the invoice engine\<close>

subsection \<open>Numbers\<close>

text \<open>
  A JavaScript number is \<open>NaN\<close>, one of the two infinities, or a finite value. The
  special values follow IEEE 754, because the validator tests for them
  (\<open>Number.isNaN\<close>) and lets the infinities through. Finite values are exact reals:
  the rounding of finite results and the sign of zero are not part of this model.
\<close>

datatype jsnum = NaN | PInf | NInf | Fin real

definition inf_times :: "bool \<Rightarrow> jsnum \<Rightarrow> jsnum" where
  \<comment> \<open>\<open>\<plusminus>Infinity * y\<close>; the flag is \<open>True\<close> for \<open>+Infinity\<close>.\<close>
  "inf_times pos y =
     (case y of
        NaN \<Rightarrow> NaN
      | PInf \<Rightarrow> (if pos then PInf else NInf)
      | NInf \<Rightarrow> (if pos then NInf else PInf)
      | Fin b \<Rightarrow> (if b = 0 then NaN else if (0 < b) = pos then PInf else NInf))"

definition js_mul :: "jsnum \<Rightarrow> jsnum \<Rightarrow> jsnum" where
  \<comment> \<open>The operator \<open>*\<close> on numbers.\<close>
  "js_mul x y =
     (case x of
        NaN \<Rightarrow> NaN
      | PInf \<Rightarrow> inf_times True y
      | NInf \<Rightarrow> inf_times False y
      | Fin a \<Rightarrow>
          (case y of
             NaN \<Rightarrow> NaN
           | PInf \<Rightarrow> inf_times True x
           | NInf \<Rightarrow> inf_times False x
           | Fin b \<Rightarrow> Fin (a * b)))"

definition js_add :: "jsnum \<Rightarrow> jsnum \<Rightarrow> jsnum" where
  \<comment> \<open>The operator \<open>+\<close> on numbers.\<close>
  "js_add x y =
     (case x of
        NaN \<Rightarrow> NaN
      | PInf \<Rightarrow> (case y of NaN \<Rightarrow> NaN | NInf \<Rightarrow> NaN | _ \<Rightarrow> PInf)
      | NInf \<Rightarrow> (case y of NaN \<Rightarrow> NaN | PInf \<Rightarrow> NaN | _ \<Rightarrow> NInf)
      | Fin a \<Rightarrow> (case y of NaN \<Rightarrow> NaN | PInf \<Rightarrow> PInf | NInf \<Rightarrow> NInf | Fin b \<Rightarrow> Fin (a + b)))"

definition js_lt :: "jsnum \<Rightarrow> jsnum \<Rightarrow> bool" where
  \<comment> \<open>The operator \<open><\<close> on numbers: false as soon as one side is \<open>NaN\<close>.\<close>
  "js_lt x y =
     (case x of
        NaN \<Rightarrow> False
      | PInf \<Rightarrow> False
      | NInf \<Rightarrow> (case y of PInf \<Rightarrow> True | Fin b \<Rightarrow> True | _ \<Rightarrow> False)
      | Fin a \<Rightarrow> (case y of PInf \<Rightarrow> True | Fin b \<Rightarrow> a < b | _ \<Rightarrow> False))"

definition js_gt :: "jsnum \<Rightarrow> jsnum \<Rightarrow> bool" where
  "js_gt x y = js_lt y x"

definition js_eq :: "jsnum \<Rightarrow> jsnum \<Rightarrow> bool" where
  \<comment> \<open>The operators \<open>===\<close> and \<open>==\<close> on two numbers: \<open>NaN\<close> equals nothing.\<close>
  "js_eq x y = (if x = NaN then False else x = y)"


subsection \<open>Strings\<close>

text \<open>
  Strings are lists of 8-bit code units. \<open>trim\<close> removes the characters of the
  ECMAScript productions WhiteSpace and LineTerminator that exist in that range:
  tab, line feed, vertical tab, form feed, carriage return, space and no-break space.
\<close>

definition isWhiteSpace :: "char \<Rightarrow> bool" where
  "isWhiteSpace c = ((of_char c :: nat) \<in> set [9, 10, 11, 12, 13, 32, 160])"

definition trimStart :: "string \<Rightarrow> string" where
  "trimStart s = dropWhile isWhiteSpace s"

definition trim :: "string \<Rightarrow> string" where
  "trim s = rev (dropWhile isWhiteSpace (rev (dropWhile isWhiteSpace s)))"

definition upperChar :: "char \<Rightarrow> char" where
  "upperChar c =
     (let n = (of_char c :: nat) in if 97 \<le> n \<and> n \<le> 122 then char_of (n - 32) else c)"

definition toUpperCase :: "string \<Rightarrow> string" where
  \<comment> \<open>\<open>String.prototype.toUpperCase\<close> on the letters a to z. The engine only looks the
      result up in tables of upper-case ASCII codes, and no other 8-bit character
      has an upper-case form made of ASCII letters that occurs in those tables.\<close>
  "toUpperCase s = map upperChar s"

definition isDigit :: "char \<Rightarrow> bool" where
  \<comment> \<open>The regular expression class \<open>\\d\<close>: the ASCII digits.\<close>
  "isDigit c = (48 \<le> (of_char c :: nat) \<and> (of_char c :: nat) \<le> 57)"

definition digitVal :: "char \<Rightarrow> nat" where
  "digitVal c = of_char c - 48"

definition digitChar :: "nat \<Rightarrow> char" where
  "digitChar n = char_of (48 + n)"

fun natOfDigits :: "nat \<Rightarrow> string \<Rightarrow> nat" where
  \<comment> \<open>The value of a string of decimal digits, most significant first.\<close>
  "natOfDigits acc [] = acc"
| "natOfDigits acc (c # cs) = natOfDigits (10 * acc + digitVal c) cs"

fun realOfDigits :: "real \<Rightarrow> string \<Rightarrow> real" where
  \<comment> \<open>The same value as a number.\<close>
  "realOfDigits acc [] = acc"
| "realOfDigits acc (c # cs) = realOfDigits (10 * acc + real (digitVal c)) cs"

fun showNat :: "nat \<Rightarrow> string" where
  \<comment> \<open>A natural number in a template string: its decimal digits.\<close>
  "showNat n = (if n < 10 then [digitChar n] else showNat (n div 10) @ [digitChar (n mod 10)])"

declare showNat.simps [simp del]

definition padStart :: "nat \<Rightarrow> string \<Rightarrow> string" where
  \<comment> \<open>Left padding with the digit zero to the given width.\<close>
  "padStart w s = replicate (w - length s) (CHR ''0'') @ s"

fun js_str_lt :: "string \<Rightarrow> string \<Rightarrow> bool" where
  \<comment> \<open>The operator \<open><\<close> on two strings: lexicographic on code units.\<close>
  "js_str_lt [] [] = False"
| "js_str_lt [] (d # ds) = True"
| "js_str_lt (c # cs) [] = False"
| "js_str_lt (c # cs) (d # ds) =
     (if (of_char c :: nat) < of_char d then True
      else if (of_char d :: nat) < of_char c then False
      else js_str_lt cs ds)"

subsection \<open>Dates\<close>

text \<open>
  The engine reads nothing of a \<open>Date\<close> but its UTC year, month and day, so a date
  value is that triple (month 1 to 12). \<open>None\<close> is the invalid date, whose time value
  is \<open>NaN\<close>.
\<close>

type_synonym ymd = "int \<times> nat \<times> nat"

definition isLeapYear :: "int \<Rightarrow> bool" where
  "isLeapYear y = (y mod 4 = 0 \<and> (y mod 100 \<noteq> 0 \<or> y mod 400 = 0))"

definition daysInMonth :: "int \<Rightarrow> nat \<Rightarrow> nat" where
  "daysInMonth y m =
     (if m = 2 then (if isLeapYear y then 29 else 28)
      else if m = 4 \<or> m = 6 \<or> m = 9 \<or> m = 11 then 30 else 31)"

definition isoYear :: "int \<Rightarrow> string" where
  \<comment> \<open>The year of \<open>toISOString\<close>: four digits from 0 to 9999, otherwise a sign and six
      digits.\<close>
  "isoYear y =
     (if 0 \<le> y \<and> y \<le> 9999 then padStart 4 (showNat (nat y))
      else (if y < 0 then ''-'' else ''+'') @ padStart 6 (showNat (nat \<bar>y\<bar>)))"

definition toISODate :: "ymd \<Rightarrow> string" where
  \<comment> \<open>\<open>value.toISOString().split('T')[0]\<close>\<close>
  "toISODate t =
     (case t of (y, m, d) \<Rightarrow>
        isoYear y @ ''-'' @ padStart 2 (showNat m) @ ''-'' @ padStart 2 (showNat d))"

definition newDateUTC :: "nat \<Rightarrow> nat \<Rightarrow> nat \<Rightarrow> ymd option" where
  \<comment> \<open>\<open>new Date(s + 'T00:00:00Z')\<close> for \<open>s\<close> of the shape YYYY-MM-DD with the three
      numbers given. A month outside 1 to 12 or a day outside 1 to 31 gives the
      invalid date; a day past the end of its month rolls over into the next month
      (the behaviour the source's comment describes; an engine that gives the
      invalid date there instead reaches the same issue code).\<close>
  "newDateUTC y m d =
     (if m < 1 \<or> 12 < m \<or> d < 1 \<or> 31 < d then None
      else if d \<le> daysInMonth (int y) m then Some (int y, m, d)
      else Some (int y, m + 1, d - daysInMonth (int y) m))"

subsection \<open>Untyped input\<close>

datatype jsval =
    JUndefined
  | JNull
  | JBool bool
  | JNum jsnum
  | JStr string
  | JDate "ymd option"
  | JArr "jsval list"
  | JObj "(string \<times> jsval) list"

definition getProp :: "(string \<times> jsval) list \<Rightarrow> string \<Rightarrow> jsval" where
  \<comment> \<open>\<open>obj[field]\<close>: \<open>undefined\<close> for a property the object does not have.\<close>
  "getProp kvs field = (case map_of kvs field of None \<Rightarrow> JUndefined | Some v \<Rightarrow> v)"

definition isObject :: "jsval \<Rightarrow> (string \<Rightarrow> jsval) option" where
  \<comment> \<open>The type guard \<open>isObject\<close>, returning the property lookup of the object when
      it holds. A \<open>Date\<close> is an object too, with none of the properties the engine
      reads.\<close>
  "isObject v =
     (case v of
        JObj kvs \<Rightarrow> Some (getProp kvs)
      | JDate t \<Rightarrow> Some (\<lambda>field. JUndefined)
      | _ \<Rightarrow> None)"

definition isNumber :: "jsval \<Rightarrow> jsnum option" where
  \<comment> \<open>The type guard \<open>isNumber\<close>: a number that is not \<open>NaN\<close>.\<close>
  "isNumber v = (case v of JNum n \<Rightarrow> (if n = NaN then None else Some n) | _ \<Rightarrow> None)"

section \<open>Domain types (types.ts)\<close>

record Business =
  name :: string
  address :: string
  email :: string
  phone :: "string option"
  logoUrl :: "string option"
  taxId :: "string option"

record Client =
  name :: string
  address :: string
  email :: "string option"

record InvoiceHeader =
  invoiceNumber :: string
  issueDate :: string
  dueDate :: "string option"
  currency :: string
  taxRate :: "jsnum option"
  "notes" :: "string option"

record LineItem =
  description :: string
  quantity :: jsnum
  unitPrice :: jsnum
  unit :: "string option"

record InvoiceDraft =
  business :: Business
  client :: Client
  header :: InvoiceHeader
  lineItems :: "LineItem list"

record ComputedTotals =
  lineItemAmounts :: "jsnum list"
  subtotal :: jsnum
  taxAmount :: jsnum
  total :: jsnum

record InvoiceComputed = InvoiceDraft +
  computed :: ComputedTotals

datatype IssueCode =
    MISSING_REQUIRED
  | INVALID_TYPE
  | INVALID_FORMAT
  | INVALID_VALUE
  | INVALID_DATE
  | DATE_ORDER
  | EMPTY_ARRAY
  | NEGATIVE_NUMBER
  | UNKNOWN

record Issue =
  code :: IssueCode
  path :: string
  message :: string
  hint :: "string option"

datatype ValidationResult =
    Valid InvoiceDraft
  | Invalid "Issue list"

section \<open>Validation (validate.ts)\<close>

subsection \<open>Constants, issue builder, number parsing\<close>

definition SUPPORTED_CURRENCIES :: "string list" where
  "SUPPORTED_CURRENCIES =
     [''EUR'', ''USD'', ''GBP'', ''CHF'', ''CAD'', ''AUD'', ''JPY'', ''CNY'', ''INR'', ''BRL'',
      ''MXN'', ''KRW'', ''SEK'', ''NOK'', ''DKK'', ''PLN'', ''CZK'', ''HUF'', ''RON'', ''BGN'',
      ''HRK'', ''RUB'', ''TRY'', ''ZAR'', ''NZD'', ''SGD'', ''HKD'', ''THB'', ''MYR'', ''PHP'']"

definition ISO_DATE_REGEX :: "string \<Rightarrow> bool" where
  \<comment> \<open>\<open>/^\\d{4}-\\d{2}-\\d{2}$/.test(s)\<close>\<close>
  "ISO_DATE_REGEX s =
     (length s = 10 \<and> list_all isDigit (take 4 s) \<and> s ! 4 = CHR ''-'' \<and>
      list_all isDigit (take 2 (drop 5 s)) \<and> s ! 7 = CHR ''-'' \<and> list_all isDigit (drop 8 s))"

definition issue :: "IssueCode \<Rightarrow> string \<Rightarrow> string \<Rightarrow> string option \<Rightarrow> Issue" where
  \<comment> \<open>A hint that is missing or empty is left out.\<close>
  "issue c p m h =
     \<lparr>code = c, path = p, message = m,
      hint = (case h of None \<Rightarrow> None | Some t \<Rightarrow> if t = [] then None else Some t)\<rparr>"

definition truthy :: "string option \<Rightarrow> bool" where
  \<comment> \<open>Truthiness of a value that is a string or \<open>undefined\<close>.\<close>
  "truthy v = (case v of None \<Rightarrow> False | Some s \<Rightarrow> s \<noteq> [])"

definition scale10 :: "real \<Rightarrow> int \<Rightarrow> real" where
  "scale10 x k = (if 0 \<le> k then x * 10 ^ nat k else x / 10 ^ nat (- k))"

definition exponentPart :: "string \<Rightarrow> int" where
  \<comment> \<open>The value of an ExponentPart at the head of the text: \<open>e\<close> or \<open>E\<close>, an optional
      sign and at least one digit; 0 when there is none.\<close>
  "exponentPart r =
     (case r of
        [] \<Rightarrow> 0
      | c # r1 \<Rightarrow>
          if c = CHR ''e'' \<or> c = CHR ''E'' then
            (case r1 of
               [] \<Rightarrow> 0
             | s # r2 \<Rightarrow>
                 if s = CHR ''-'' then - int (natOfDigits 0 (takeWhile isDigit r2))
                 else if s = CHR ''+'' then int (natOfDigits 0 (takeWhile isDigit r2))
                 else int (natOfDigits 0 (takeWhile isDigit r1)))
          else 0)"

definition parseFloat :: "string \<Rightarrow> jsnum" where
  \<comment> \<open>The global \<open>parseFloat\<close>: leading white space is skipped, then the longest prefix
      that is a StrDecimalLiteral is read (a sign, then \<open>Infinity\<close> or digits with an
      optional fraction and exponent); what follows is ignored, and \<open>NaN\<close> is the
      result when no prefix is a literal. The decimal value is taken exactly.\<close>
  "parseFloat input =
     (let s0 = trimStart input;
          neg = (s0 \<noteq> [] \<and> hd s0 = CHR ''-'');
          s1 = (if s0 \<noteq> [] \<and> (hd s0 = CHR ''-'' \<or> hd s0 = CHR ''+'') then tl s0 else s0)
      in if take 8 s1 = ''Infinity'' then (if neg then NInf else PInf)
         else
           (let ip = takeWhile isDigit s1;
                r1 = dropWhile isDigit s1;
                dot = (r1 \<noteq> [] \<and> hd r1 = CHR ''.'');
                fp = (if dot then takeWhile isDigit (tl r1) else []);
                r2 = (if dot then dropWhile isDigit (tl r1) else r1)
            in if ip = [] \<and> fp = [] then NaN
               else
                 (let mant = realOfDigits 0 (ip @ fp);
                      v = scale10 mant (exponentPart r2 - int (length fp))
                  in Fin (if neg then - v else v))))"

subsection \<open>Field validators\<close>

text \<open>
  The source pushes onto one shared \<open>issues\<close> array. Each validator here takes the
  array as it stands and returns it as it leaves it, beside its result
  (\<open>None\<close> for \<open>undefined\<close>).
\<close>

definition validateRequiredString ::
  "(string \<Rightarrow> jsval) \<Rightarrow> string \<Rightarrow> string \<Rightarrow> Issue list \<Rightarrow> string option \<times> Issue list" where
  "validateRequiredString obj field pth issues =
     (case obj field of
        JUndefined \<Rightarrow> (None, issues @ [issue MISSING_REQUIRED pth (field @ '' is required'') None])
      | JNull \<Rightarrow> (None, issues @ [issue MISSING_REQUIRED pth (field @ '' is required'') None])
      | JStr v \<Rightarrow>
          (let trimmed = trim v
           in if trimmed = []
              then (None, issues @ [issue MISSING_REQUIRED pth (field @ '' cannot be empty'') None])
              else (Some trimmed, issues))
      | _ \<Rightarrow> (None, issues @ [issue INVALID_TYPE pth (field @ '' must be a string'') None]))"

definition validateOptionalString ::
  "(string \<Rightarrow> jsval) \<Rightarrow> string \<Rightarrow> string \<Rightarrow> Issue list \<Rightarrow> string option \<times> Issue list" where
  "validateOptionalString obj field pth issues =
     (case obj field of
        JUndefined \<Rightarrow> (None, issues)
      | JNull \<Rightarrow> (None, issues)
      | JStr v \<Rightarrow>
          (if v = [] then (None, issues)
           else ((if trim v = [] then None else Some (trim v)), issues))
      | _ \<Rightarrow> (None, issues @ [issue INVALID_TYPE pth (field @ '' must be a string'') None]))"

record NumberOptions =
  allowNegative :: "bool option"
  allowZero :: "bool option"

definition validateNumberValue ::
  "jsnum \<Rightarrow> string \<Rightarrow> string \<Rightarrow> Issue list \<Rightarrow> NumberOptions option \<Rightarrow> jsnum option \<times> Issue list" where
  "validateNumberValue v field pth issues options =
     (let allowNeg = (case options of None \<Rightarrow> False
                      | Some opts \<Rightarrow> (case NumberOptions.allowNegative opts of None \<Rightarrow> False | Some b \<Rightarrow> b));
          allowZ = (case options of None \<Rightarrow> True
                    | Some opts \<Rightarrow> (case allowZero opts of None \<Rightarrow> True | Some b \<Rightarrow> b))
      in if \<not> allowNeg \<and> js_lt v (Fin 0)
         then (None, issues @ [issue NEGATIVE_NUMBER pth (field @ '' cannot be negative'')
                                 (Some ''Use a positive number'')])
         else if \<not> allowZ \<and> js_eq v (Fin 0)
         then (None, issues @ [issue INVALID_VALUE pth (field @ '' cannot be zero'') None])
         else (Some v, issues))"

definition validateRequiredNumber ::
  "(string \<Rightarrow> jsval) \<Rightarrow> string \<Rightarrow> string \<Rightarrow> Issue list \<Rightarrow> NumberOptions option \<Rightarrow> jsnum option \<times> Issue list" where
  "validateRequiredNumber obj field pth issues options =
     (case obj field of
        JUndefined \<Rightarrow> (None, issues @ [issue MISSING_REQUIRED pth (field @ '' is required'') None])
      | JNull \<Rightarrow> (None, issues @ [issue MISSING_REQUIRED pth (field @ '' is required'') None])
      | v \<Rightarrow>
          (case isNumber v of
             Some n \<Rightarrow> validateNumberValue n field pth issues options
           | None \<Rightarrow>
               (case v of
                  JStr s \<Rightarrow>
                    (let parsed = parseFloat s
                     in if parsed \<noteq> NaN then validateNumberValue parsed field pth issues options
                        else (None, issues @ [issue INVALID_TYPE pth (field @ '' must be a number'') None]))
                | _ \<Rightarrow> (None, issues @ [issue INVALID_TYPE pth (field @ '' must be a number'') None]))))"

text \<open>
  The bounds of \<open>validateOptionalNumber\<close> are number literals at its one call site
  (0 and 1); they are natural numbers here, so that their text in a message is their
  decimal digits.
\<close>

record RangeOptions =
  allowNegative :: "bool option"
  min_bound :: "nat option"
  max_bound :: "nat option"

definition validateOptionalNumber ::
  "(string \<Rightarrow> jsval) \<Rightarrow> string \<Rightarrow> string \<Rightarrow> Issue list \<Rightarrow> RangeOptions option \<Rightarrow> jsnum option \<times> Issue list" where
  "validateOptionalNumber obj field pth issues options =
     (let v = obj field
      in if v = JUndefined \<or> v = JNull \<or> v = JStr [] then (None, issues)
         else
           (case (case isNumber v of
                    Some n \<Rightarrow> Some n
                  | None \<Rightarrow> (case v of JStr s \<Rightarrow> (if parseFloat s = NaN then None else Some (parseFloat s))
                             | _ \<Rightarrow> None)) of
              None \<Rightarrow> (None, issues @ [issue INVALID_TYPE pth (field @ '' must be a number'') None])
            | Some num \<Rightarrow>
                (let allowNeg = (case options of None \<Rightarrow> False
                                 | Some opts \<Rightarrow> (case RangeOptions.allowNegative opts of None \<Rightarrow> False | Some b \<Rightarrow> b));
                     mn = (case options of None \<Rightarrow> None | Some opts \<Rightarrow> min_bound opts);
                     mx = (case options of None \<Rightarrow> None | Some opts \<Rightarrow> max_bound opts)
                 in if \<not> allowNeg \<and> js_lt num (Fin 0)
                    then (None, issues @ [issue NEGATIVE_NUMBER pth (field @ '' cannot be negative'') None])
                    else if mn \<noteq> None \<and> js_lt num (Fin (real (the mn)))
                    then (None, issues @ [issue INVALID_VALUE pth
                                            (field @ '' must be at least '' @ showNat (the mn)) None])
                    else if mx \<noteq> None \<and> js_gt num (Fin (real (the mx)))
                    then (None, issues @ [issue INVALID_VALUE pth
                                            (field @ '' must be at most '' @ showNat (the mx)) None])
                    else (Some num, issues))))"

definition validateIsoDate ::
  "(string \<Rightarrow> jsval) \<Rightarrow> string \<Rightarrow> string \<Rightarrow> Issue list \<Rightarrow> bool \<Rightarrow> string option \<times> Issue list" where
  "validateIsoDate obj field pth issues required =
     (let v = obj field
      in if v = JUndefined \<or> v = JNull \<or> v = JStr []
         then (None, if required
                     then issues @ [issue MISSING_REQUIRED pth (field @ '' is required'') None]
                     else issues)
         else
           (case v of
              JDate t \<Rightarrow>
                (case t of
                   None \<Rightarrow> (None, issues @ [issue INVALID_DATE pth (field @ '' is not a valid date'') None])
                 | Some d \<Rightarrow> (Some (toISODate d), issues))
            | JStr s \<Rightarrow>
                (let trimmed = trim s
                 in if \<not> ISO_DATE_REGEX trimmed
                    then (None, issues @ [issue INVALID_FORMAT pth (field @ '' must be in YYYY-MM-DD format'')
                                            (Some ''Example: 2025-01-15'')])
                    else
                      (let year = natOfDigits 0 (take 4 trimmed);
                           month = natOfDigits 0 (take 2 (drop 5 trimmed));
                           day = natOfDigits 0 (drop 8 trimmed)
                       in case newDateUTC year month day of
                            None \<Rightarrow> (None, issues @ [issue INVALID_DATE pth (field @ '' is not a valid date'') None])
                          | Some date \<Rightarrow>
                              if fst date \<noteq> int year \<or> fst (snd date) \<noteq> month \<or> snd (snd date) \<noteq> day
                              then (None, issues @ [issue INVALID_DATE pth
                                                      (field @ '' is not a valid calendar date'') None])
                              else (Some trimmed, issues)))
            | _ \<Rightarrow> (None, issues @ [issue INVALID_TYPE pth
                                      (field @ '' must be a date string (YYYY-MM-DD)'') None])))"

definition validateCurrency ::
  "(string \<Rightarrow> jsval) \<Rightarrow> string \<Rightarrow> string \<Rightarrow> Issue list \<Rightarrow> string option \<times> Issue list" where
  "validateCurrency obj field pth issues =
     (case validateRequiredString obj field pth issues of
        (v, issues1) \<Rightarrow>
          if \<not> truthy v then (None, issues1)
          else
            (let upper = toUpperCase (the v)
             in if upper \<notin> set SUPPORTED_CURRENCIES
                then (None, issues1 @ [issue INVALID_VALUE pth
                         (field @ '' \"'' @ the v @ ''\" is not a recognized currency code'')
                         (Some ''Use ISO 4217 codes like EUR, USD, GBP'')])
                else (Some upper, issues1)))"

subsection \<open>Object validators\<close>

definition validateBusiness :: "jsval \<Rightarrow> string \<Rightarrow> Issue list \<Rightarrow> Business option \<times> Issue list" where
  "validateBusiness input basePath issues =
     (case isObject input of
        None \<Rightarrow> (None, issues @ [issue INVALID_TYPE basePath ''business must be an object'' None])
      | Some obj \<Rightarrow>
          (let (name, issues1) = validateRequiredString obj ''name'' (basePath @ ''.name'') issues;
               (address, issues2) = validateRequiredString obj ''address'' (basePath @ ''.address'') issues1;
               (email, issues3) = validateRequiredString obj ''email'' (basePath @ ''.email'') issues2;
               (phone, issues4) = validateOptionalString obj ''phone'' (basePath @ ''.phone'') issues3;
               (logoUrl, issues5) = validateOptionalString obj ''logoUrl'' (basePath @ ''.logoUrl'') issues4;
               (taxId, issues6) = validateOptionalString obj ''taxId'' (basePath @ ''.taxId'') issues5
           in ((if \<not> truthy name \<or> \<not> truthy address \<or> \<not> truthy email then None
              else Some \<lparr>Business.name = the name, Business.address = the address,
                           Business.email = the email,
                           phone = (if truthy phone then phone else None),
                           logoUrl = (if truthy logoUrl then logoUrl else None),
                           taxId = (if truthy taxId then taxId else None)\<rparr>), issues6)))"

definition validateClient :: "jsval \<Rightarrow> string \<Rightarrow> Issue list \<Rightarrow> Client option \<times> Issue list" where
  "validateClient input basePath issues =
     (case isObject input of
        None \<Rightarrow> (None, issues @ [issue INVALID_TYPE basePath ''client must be an object'' None])
      | Some obj \<Rightarrow>
          (let (name, issues1) = validateRequiredString obj ''name'' (basePath @ ''.name'') issues;
               (address, issues2) = validateRequiredString obj ''address'' (basePath @ ''.address'') issues1;
               (email, issues3) = validateOptionalString obj ''email'' (basePath @ ''.email'') issues2
           in ((if \<not> truthy name \<or> \<not> truthy address then None
              else Some \<lparr>Client.name = the name, Client.address = the address,
                           Client.email = (if truthy email then email else None)\<rparr>), issues3)))"

definition validateHeader :: "jsval \<Rightarrow> string \<Rightarrow> Issue list \<Rightarrow> InvoiceHeader option \<times> Issue list" where
  "validateHeader input basePath issues =
     (case isObject input of
        None \<Rightarrow> (None, issues @ [issue INVALID_TYPE basePath ''header must be an object'' None])
      | Some obj \<Rightarrow>
          (let (invoiceNumber, issues1) =
                 validateRequiredString obj ''invoiceNumber'' (basePath @ ''.invoiceNumber'') issues;
               (issueDate, issues2) =
                 validateIsoDate obj ''issueDate'' (basePath @ ''.issueDate'') issues1 True;
               (dueDate, issues3) =
                 validateIsoDate obj ''dueDate'' (basePath @ ''.dueDate'') issues2 False;
               (currency, issues4) =
                 validateCurrency obj ''currency'' (basePath @ ''.currency'') issues3;
               (taxRate, issues5) =
                 validateOptionalNumber obj ''taxRate'' (basePath @ ''.taxRate'') issues4
                   (Some \<lparr>RangeOptions.allowNegative = Some False, min_bound = Some 0, max_bound = Some 1\<rparr>);
               (notes, issues6) = validateOptionalString obj ''notes'' (basePath @ ''.notes'') issues5;
               issues7 =
                 (if truthy issueDate \<and> truthy dueDate \<and> js_str_lt (the dueDate) (the issueDate)
                  then issues6 @ [issue DATE_ORDER (basePath @ ''.dueDate'')
                                    ''Due date cannot be before issue date''
                                    (Some ''Set due date on or after the issue date'')]
                  else issues6)
           in ((if \<not> truthy invoiceNumber \<or> \<not> truthy issueDate \<or> \<not> truthy currency then None
              else Some \<lparr>invoiceNumber = the invoiceNumber, issueDate = the issueDate,
                           dueDate = (if truthy dueDate then dueDate else None),
                           currency = the currency,
                           taxRate = taxRate,
                           notes = (if truthy notes then notes else None)\<rparr>), issues7)))"

definition validateLineItem :: "jsval \<Rightarrow> string \<Rightarrow> Issue list \<Rightarrow> LineItem option \<times> Issue list" where
  "validateLineItem input basePath issues =
     (case isObject input of
        None \<Rightarrow> (None, issues @ [issue INVALID_TYPE basePath ''line item must be an object'' None])
      | Some obj \<Rightarrow>
          (let (description, issues1) =
                 validateRequiredString obj ''description'' (basePath @ ''.description'') issues;
               (quantity, issues2) =
                 validateRequiredNumber obj ''quantity'' (basePath @ ''.quantity'') issues1
                   (Some \<lparr>NumberOptions.allowNegative = Some False, allowZero = Some False\<rparr>);
               (unitPrice, issues3) =
                 validateRequiredNumber obj ''unitPrice'' (basePath @ ''.unitPrice'') issues2
                   (Some \<lparr>NumberOptions.allowNegative = Some False, allowZero = None\<rparr>);
               (unit, issues4) = validateOptionalString obj ''unit'' (basePath @ ''.unit'') issues3
           in ((if \<not> truthy description \<or> quantity = None \<or> unitPrice = None then None
              else Some \<lparr>description = the description, quantity = the quantity,
                           unitPrice = the unitPrice,
                           unit = (if truthy unit then unit else None)\<rparr>), issues4)))"

fun validateLineItemsLoop ::
  "jsval list \<Rightarrow> nat \<Rightarrow> string \<Rightarrow> LineItem list \<Rightarrow> bool \<Rightarrow> Issue list
     \<Rightarrow> (LineItem list \<times> bool) \<times> Issue list" where
  \<comment> \<open>The \<open>for\<close> loop of \<open>validateLineItems\<close> over the elements from index \<open>i\<close> on, with
      the loop's variables \<open>items\<close> and \<open>hasError\<close>.\<close>
  "validateLineItemsLoop [] i basePath items hasError issues = ((items, hasError), issues)"
| "validateLineItemsLoop (x # rest) i basePath items hasError issues =
     (case validateLineItem x (basePath @ ''['' @ showNat i @ '']'') issues of
        (Some item, issues1) \<Rightarrow> validateLineItemsLoop rest (Suc i) basePath (items @ [item]) hasError issues1
      | (None, issues1) \<Rightarrow> validateLineItemsLoop rest (Suc i) basePath items True issues1)"

definition validateLineItems :: "jsval \<Rightarrow> string \<Rightarrow> Issue list \<Rightarrow> LineItem list option \<times> Issue list" where
  "validateLineItems input basePath issues =
     (case input of
        JArr elems \<Rightarrow>
          (if length elems = 0
           then (None, issues @ [issue EMPTY_ARRAY basePath ''At least one line item is required''
                                   (Some ''Add at least one item to the invoice'')])
           else
             (case validateLineItemsLoop elems 0 basePath [] False issues of
                ((items, hasError), issues1) \<Rightarrow> ((if hasError then None else Some items), issues1)))
      | _ \<Rightarrow> (None, issues @ [issue INVALID_TYPE basePath ''lineItems must be an array'' None]))"

subsection \<open>Main validation entry point\<close>

definition validateDraft :: "jsval \<Rightarrow> ValidationResult" where
  "validateDraft input =
     (case isObject input of
        None \<Rightarrow> Invalid [issue INVALID_TYPE [] ''Input must be an object'' None]
      | Some obj \<Rightarrow>
          (let (business, issues1) = validateBusiness (obj ''business'') ''business'' [];
               (client, issues2) = validateClient (obj ''client'') ''client'' issues1;
               (header, issues3) = validateHeader (obj ''header'') ''header'' issues2;
               (lineItems, issues4) = validateLineItems (obj ''lineItems'') ''lineItems'' issues3
           in if length issues4 > 0 \<or> business = None \<or> client = None \<or> header = None \<or> lineItems = None
              then Invalid issues4
              else Valid \<lparr>business = the business, client = the client, header = the header,
                          lineItems = the lineItems\<rparr>))"

section \<open>Computation (compute.ts)\<close>

definition computeInvoice :: "InvoiceDraft \<Rightarrow> InvoiceComputed" where
  "computeInvoice draft =
     (let lineItemAmounts = map (\<lambda>item. js_mul (LineItem.quantity item) (LineItem.unitPrice item)) (InvoiceDraft.lineItems draft);
          subtotal = foldl (\<lambda>sum amount. js_add sum amount) (Fin 0) lineItemAmounts;
          taxRate = (case InvoiceHeader.taxRate (InvoiceDraft.header draft) of None \<Rightarrow> Fin 0 | Some r \<Rightarrow> r);
          taxAmount = js_mul subtotal taxRate;
          total = js_add subtotal taxAmount
      in InvoiceDraft.extend draft
           (InvoiceComputed.fields
              \<lparr>lineItemAmounts = lineItemAmounts, ComputedTotals.subtotal = subtotal,
               ComputedTotals.taxAmount = taxAmount, ComputedTotals.total = total\<rparr>))"

definition recomputeInvoice :: "InvoiceComputed \<Rightarrow> InvoiceComputed" where
  \<comment> \<open>The rest pattern drops \<open>computed\<close> and keeps the four draft fields.\<close>
  "recomputeInvoice invoice = computeInvoice (InvoiceDraft.truncate invoice)"

section \<open>Formatting (format.ts)\<close>


datatype CurrencyDisplay = Symbol | Code | Name




record FormattedBusiness =
  name :: string
  address :: string
  email :: string
  phone :: string
  logoUrl :: string
  taxId :: string

record FormattedClient =
  name :: string
  address :: string
  email :: string

record FormattedHeader =
  invoiceNumber :: string
  issueDate :: string
  dueDate :: string
  currency :: string
  taxRateDisplay :: string
  "notes" :: string

record FormattedLineItem =
  description :: string
  quantity :: string
  unitPrice :: string
  amount :: string
  unit :: string

record FormattedTotals =
  subtotal :: string
  taxAmount :: string
  total :: string

record FormattedInvoice =
  business :: FormattedBusiness
  client :: FormattedClient
  header :: FormattedHeader
  lineItems :: "FormattedLineItem list"
  totals :: FormattedTotals















section \<open>Pipeline (index.ts)\<close>




section \<open>Notions used in the statements\<close>

definition reported :: "(Issue list \<Rightarrow> 'a \<times> Issue list) \<Rightarrow> Issue list" where
  \<comment> \<open>The issues a validator pushes when it is run on its own, on an empty array.\<close>
  "reported v = snd (v [])"

definition outcome :: "(Issue list \<Rightarrow> 'a \<times> Issue list) \<Rightarrow> 'a" where
  \<comment> \<open>The value a validator returns when it is run on its own.\<close>
  "outcome v = fst (v [])"

definition given :: "('s \<Rightarrow> 'o \<Rightarrow> 'r) \<Rightarrow> 'o \<Rightarrow> 's \<Rightarrow> 'r" where
  \<comment> \<open>A validator whose last argument (its options, or its \<open>required\<close> flag) is fixed,
      as a function of the issues array alone.\<close>
  "given v opts = (\<lambda>issues. v issues opts)"

definition issuesOf :: "ValidationResult \<Rightarrow> Issue list" where
  \<comment> \<open>The issues of a result; a successful validation carries none.\<close>
  "issuesOf r = (case r of Valid d \<Rightarrow> [] | Invalid issues \<Rightarrow> issues)"

definition hasIssue :: "IssueCode \<Rightarrow> string \<Rightarrow> Issue list \<Rightarrow> bool" where
  \<comment> \<open>Some issue of the list has this code and this path.\<close>
  "hasIssue c p issues = list_ex (\<lambda>x. code x = c \<and> path x = p) issues"

definition hasCode :: "IssueCode \<Rightarrow> Issue list \<Rightarrow> bool" where
  "hasCode c issues = list_ex (\<lambda>x. code x = c) issues"

definition dateNumbers :: "string \<Rightarrow> nat \<times> nat \<times> nat" where
  \<comment> \<open>\<open>s.split('-').map(Number)\<close> for a text of the shape YYYY-MM-DD.\<close>
  "dateNumbers s =
     (natOfDigits 0 (take 4 s), natOfDigits 0 (take 2 (drop 5 s)), natOfDigits 0 (drop 8 s))"

definition isCalendarDate :: "nat \<times> nat \<times> nat \<Rightarrow> bool" where
  \<comment> \<open>A day that exists in the Gregorian calendar.\<close>
  "isCalendarDate t =
     (case t of (y, m, d) \<Rightarrow> 1 \<le> m \<and> m \<le> 12 \<and> 1 \<le> d \<and> d \<le> daysInMonth (int y) m)"

definition earlier :: "nat \<times> nat \<times> nat \<Rightarrow> nat \<times> nat \<times> nat \<Rightarrow> bool" where
  \<comment> \<open>Calendar order on year, month and day.\<close>
  "earlier a b =
     (case a of (y1, m1, d1) \<Rightarrow> case b of (y2, m2, d2) \<Rightarrow>
        y1 < y2 \<or> (y1 = y2 \<and> (m1 < m2 \<or> (m1 = m2 \<and> d1 < d2))))"



section \<open>Sample inputs\<close>

text \<open>
  The inputs of the test suite and of the scenarios of the specification, on which the
  theorems below are instantiated.
\<close>

definition sampleBusiness :: jsval where
  "sampleBusiness =
     JObj [(''name'', JStr ''Test Business''), (''address'', JStr ''123 Test St''),
           (''email'', JStr ''test@example.com'')]"

definition sampleClient :: jsval where
  "sampleClient = JObj [(''name'', JStr ''Test Client''), (''address'', JStr ''456 Client Ave'')]"

definition sampleItem :: "jsval \<Rightarrow> jsval \<Rightarrow> jsval" where
  "sampleItem qty price =
     JObj [(''description'', JStr ''Service''), (''quantity'', qty), (''unitPrice'', price)]"

definition sampleInvoice :: "(string \<times> jsval) list \<Rightarrow> jsval list \<Rightarrow> jsval" where
  \<comment> \<open>The valid invoice of the tests, with the given header fields and line items.\<close>
  "sampleInvoice headerFields items =
     JObj [(''business'', sampleBusiness), (''client'', sampleClient),
           (''header'', JObj headerFields), (''lineItems'', JArr items)]"



definition sampleDraft :: "InvoiceHeader \<Rightarrow> LineItem list \<Rightarrow> InvoiceDraft" where
  "sampleDraft h items =
     \<lparr>InvoiceDraft.business =
        \<lparr>Business.name = ''Test Business'', Business.address = ''123 Test St'',
         Business.email = ''test@example.com'', Business.phone = None,
         Business.logoUrl = None, Business.taxId = None\<rparr>,
      InvoiceDraft.client =
        \<lparr>Client.name = ''Test Client'', Client.address = ''456 Client Ave'', Client.email = None\<rparr>,
      InvoiceDraft.header = h,
      InvoiceDraft.lineItems = items\<rparr>"

definition plainHeader :: "string \<Rightarrow> InvoiceHeader" where
  "plainHeader date =
     \<lparr>InvoiceHeader.invoiceNumber = ''INV-001'', InvoiceHeader.issueDate = date,
      InvoiceHeader.dueDate = None, InvoiceHeader.currency = ''EUR'',
      InvoiceHeader.taxRate = None, InvoiceHeader.notes = None\<rparr>"

definition serviceItem :: "jsnum \<Rightarrow> jsnum \<Rightarrow> LineItem" where
  "serviceItem qty price =
     \<lparr>LineItem.description = ''Service'', LineItem.quantity = qty, LineItem.unitPrice = price,
      LineItem.unit = None\<rparr>"

definition validDraft :: InvoiceDraft where
  "validDraft = sampleDraft (plainHeader ''2025-01-05'') [serviceItem (Fin 1) (Fin 100)]"




definition emptyGroups :: jsval where
  \<comment> \<open>The input of the test \<open>returns all issues, not just the first\<close>.\<close>
  "emptyGroups =
     JObj [(''business'', JObj [(''name'', JStr [])]), (''client'', JObj []),
           (''header'', JObj []), (''lineItems'', JArr [])]"







definition february30 :: jsval where
  \<comment> \<open>Scenario 4.\<close>
  "february30 =
     sampleInvoice
       [(''invoiceNumber'', JStr ''INV-001''), (''issueDate'', JStr ''2025-02-30''),
        (''currency'', JStr ''EUR'')]
       [sampleItem (JNum (Fin 1)) (JNum (Fin 100))]"

definition emptyIssueDate :: jsval where
  "emptyIssueDate =
     sampleInvoice
       [(''invoiceNumber'', JStr ''INV-001''), (''issueDate'', JStr []), (''currency'', JStr ''EUR'')]
       [sampleItem (JNum (Fin 1)) (JNum (Fin 100))]"

definition datedInvoice :: "jsval \<Rightarrow> jsval \<Rightarrow> jsval" where
  \<comment> \<open>The valid invoice with the given issue and due dates.\<close>
  "datedInvoice issued due =
     sampleInvoice
       [(''invoiceNumber'', JStr ''INV-001''), (''issueDate'', issued), (''dueDate'', due),
        (''currency'', JStr ''EUR'')]
       [sampleItem (JNum (Fin 1)) (JNum (Fin 100))]"

definition year10000 :: jsval where
  \<comment> \<open>An issue date given as \<open>new Date(Date.UTC(10000, 0, 1))\<close>.\<close>
  "year10000 =
     sampleInvoice
       [(''invoiceNumber'', JStr ''INV-001''), (''issueDate'', JDate (Some (10000, 1, 1))),
        (''currency'', JStr ''EUR'')]
       [sampleItem (JNum (Fin 1)) (JNum (Fin 100))]"




section \<open>Every validator appends to the issues it is given\<close>

text \<open>
  Each validator returns the array it was given followed by the issues it reports on
  its own, and its result does not depend on that array.
\<close>

lemma validateRequiredString_run:
  "validateRequiredString obj field pth issues =
     (outcome (validateRequiredString obj field pth),
      issues @ reported (validateRequiredString obj field pth))"
  by (simp add: outcome_def reported_def validateRequiredString_def Let_def split: jsval.splits)

lemma validateOptionalString_run:
  "validateOptionalString obj field pth issues =
     (outcome (validateOptionalString obj field pth),
      issues @ reported (validateOptionalString obj field pth))"
  by (simp add: outcome_def reported_def validateOptionalString_def Let_def split: jsval.splits)

lemma validateNumberValue_run:
  "validateNumberValue v field pth issues opts =
     (outcome (given (validateNumberValue v field pth) opts),
      issues @ reported (given (validateNumberValue v field pth) opts))"
  by (simp add: outcome_def reported_def given_def validateNumberValue_def Let_def)

lemma validateRequiredNumber_run:
  "validateRequiredNumber obj field pth issues opts =
     (outcome (given (validateRequiredNumber obj field pth) opts),
      issues @ reported (given (validateRequiredNumber obj field pth) opts))"
  by (simp add: outcome_def reported_def given_def validateRequiredNumber_def validateNumberValue_def Let_def
      split: jsval.splits option.splits)

lemma validateOptionalNumber_run:
  "validateOptionalNumber obj field pth issues opts =
     (outcome (given (validateOptionalNumber obj field pth) opts),
      issues @ reported (given (validateOptionalNumber obj field pth) opts))"
  by (simp add: outcome_def reported_def given_def validateOptionalNumber_def Let_def
      split: jsval.splits option.splits)

lemma validateIsoDate_run:
  "validateIsoDate obj field pth issues required =
     (outcome (given (validateIsoDate obj field pth) required),
      issues @ reported (given (validateIsoDate obj field pth) required))"
  by (simp add: outcome_def reported_def given_def validateIsoDate_def Let_def
      split: jsval.splits option.splits)

lemma validateCurrency_run:
  "validateCurrency obj field pth issues =
     (outcome (validateCurrency obj field pth), issues @ reported (validateCurrency obj field pth))"
  by (simp add: outcome_def[of "validateCurrency obj field pth"]
      reported_def[of "validateCurrency obj field pth"]
      validateCurrency_def validateRequiredString_run Let_def)

lemmas field_runs =
  validateRequiredString_run validateOptionalString_run validateRequiredNumber_run
  validateOptionalNumber_run validateIsoDate_run validateCurrency_run

subsection \<open>The four groups and the line items, field by field\<close>

lemma validateBusiness_not_object:
  "isObject input = None \<Longrightarrow>
     validateBusiness input basePath issues =
       (None, issues @ [issue INVALID_TYPE basePath ''business must be an object'' None])"
  by (simp add: validateBusiness_def)

lemma validateBusiness_object:
  "isObject input = Some obj \<Longrightarrow>
     validateBusiness input basePath issues =
       ((if \<not> truthy (outcome (validateRequiredString obj ''name'' (basePath @ ''.name''))) \<or>
            \<not> truthy (outcome (validateRequiredString obj ''address'' (basePath @ ''.address''))) \<or>
            \<not> truthy (outcome (validateRequiredString obj ''email'' (basePath @ ''.email'')))
         then None
         else Some
           \<lparr>Business.name = the (outcome (validateRequiredString obj ''name'' (basePath @ ''.name''))),
            Business.address = the (outcome (validateRequiredString obj ''address'' (basePath @ ''.address''))),
            Business.email = the (outcome (validateRequiredString obj ''email'' (basePath @ ''.email''))),
            Business.phone = (if truthy (outcome (validateOptionalString obj ''phone'' (basePath @ ''.phone'')))
                     then outcome (validateOptionalString obj ''phone'' (basePath @ ''.phone'')) else None),
            Business.logoUrl = (if truthy (outcome (validateOptionalString obj ''logoUrl'' (basePath @ ''.logoUrl'')))
                       then outcome (validateOptionalString obj ''logoUrl'' (basePath @ ''.logoUrl'')) else None),
            Business.taxId = (if truthy (outcome (validateOptionalString obj ''taxId'' (basePath @ ''.taxId'')))
                     then outcome (validateOptionalString obj ''taxId'' (basePath @ ''.taxId'')) else None)\<rparr>),
        issues @
        reported (validateRequiredString obj ''name'' (basePath @ ''.name'')) @
        reported (validateRequiredString obj ''address'' (basePath @ ''.address'')) @
        reported (validateRequiredString obj ''email'' (basePath @ ''.email'')) @
        reported (validateOptionalString obj ''phone'' (basePath @ ''.phone'')) @
        reported (validateOptionalString obj ''logoUrl'' (basePath @ ''.logoUrl'')) @
        reported (validateOptionalString obj ''taxId'' (basePath @ ''.taxId'')))"
  by (simp add: validateBusiness_def field_runs Let_def split del: if_split)

lemma validateBusiness_run:
  "validateBusiness input basePath issues =
     (outcome (validateBusiness input basePath), issues @ reported (validateBusiness input basePath))"
  by (cases "isObject input")
     (simp_all add: outcome_def[of "validateBusiness input basePath"]
        reported_def[of "validateBusiness input basePath"]
        validateBusiness_not_object validateBusiness_object)

lemma validateClient_not_object:
  "isObject input = None \<Longrightarrow>
     validateClient input basePath issues =
       (None, issues @ [issue INVALID_TYPE basePath ''client must be an object'' None])"
  by (simp add: validateClient_def)

lemma validateClient_object:
  "isObject input = Some obj \<Longrightarrow>
     validateClient input basePath issues =
       ((if \<not> truthy (outcome (validateRequiredString obj ''name'' (basePath @ ''.name''))) \<or>
            \<not> truthy (outcome (validateRequiredString obj ''address'' (basePath @ ''.address'')))
         then None
         else Some
           \<lparr>Client.name = the (outcome (validateRequiredString obj ''name'' (basePath @ ''.name''))),
            Client.address = the (outcome (validateRequiredString obj ''address'' (basePath @ ''.address''))),
            Client.email = (if truthy (outcome (validateOptionalString obj ''email'' (basePath @ ''.email'')))
                            then outcome (validateOptionalString obj ''email'' (basePath @ ''.email''))
                            else None)\<rparr>),
        issues @
        reported (validateRequiredString obj ''name'' (basePath @ ''.name'')) @
        reported (validateRequiredString obj ''address'' (basePath @ ''.address'')) @
        reported (validateOptionalString obj ''email'' (basePath @ ''.email'')))"
  by (simp add: validateClient_def field_runs Let_def split del: if_split)

lemma validateClient_run:
  "validateClient input basePath issues =
     (outcome (validateClient input basePath), issues @ reported (validateClient input basePath))"
  by (cases "isObject input")
     (simp_all add: outcome_def[of "validateClient input basePath"]
        reported_def[of "validateClient input basePath"]
        validateClient_not_object validateClient_object)

lemma validateHeader_not_object:
  "isObject input = None \<Longrightarrow>
     validateHeader input basePath issues =
       (None, issues @ [issue INVALID_TYPE basePath ''header must be an object'' None])"
  by (simp add: validateHeader_def)

lemma validateHeader_object:
  "isObject input = Some obj \<Longrightarrow>
     validateHeader input basePath issues =
       ((if \<not> truthy (outcome (validateRequiredString obj ''invoiceNumber'' (basePath @ ''.invoiceNumber''))) \<or>
            \<not> truthy (outcome (given (validateIsoDate obj ''issueDate'' (basePath @ ''.issueDate'')) True)) \<or>
            \<not> truthy (outcome (validateCurrency obj ''currency'' (basePath @ ''.currency'')))
         then None
         else Some
           \<lparr>InvoiceHeader.invoiceNumber = the (outcome (validateRequiredString obj ''invoiceNumber'' (basePath @ ''.invoiceNumber''))),
            InvoiceHeader.issueDate = the (outcome (given (validateIsoDate obj ''issueDate'' (basePath @ ''.issueDate'')) True)),
            InvoiceHeader.dueDate = (if truthy (outcome (given (validateIsoDate obj ''dueDate'' (basePath @ ''.dueDate'')) False))
                       then outcome (given (validateIsoDate obj ''dueDate'' (basePath @ ''.dueDate'')) False)
                       else None),
            InvoiceHeader.currency = the (outcome (validateCurrency obj ''currency'' (basePath @ ''.currency''))),
            InvoiceHeader.taxRate = outcome (given (validateOptionalNumber obj ''taxRate'' (basePath @ ''.taxRate'')) (Some \<lparr>RangeOptions.allowNegative = Some False, min_bound = Some 0, max_bound = Some 1\<rparr>)),
            InvoiceHeader.notes = (if truthy (outcome (validateOptionalString obj ''notes'' (basePath @ ''.notes'')))
                     then outcome (validateOptionalString obj ''notes'' (basePath @ ''.notes'')) else None)\<rparr>),
        issues @
        reported (validateRequiredString obj ''invoiceNumber'' (basePath @ ''.invoiceNumber'')) @
        reported (given (validateIsoDate obj ''issueDate'' (basePath @ ''.issueDate'')) True) @
        reported (given (validateIsoDate obj ''dueDate'' (basePath @ ''.dueDate'')) False) @
        reported (validateCurrency obj ''currency'' (basePath @ ''.currency'')) @
        reported (given (validateOptionalNumber obj ''taxRate'' (basePath @ ''.taxRate'')) (Some \<lparr>RangeOptions.allowNegative = Some False, min_bound = Some 0, max_bound = Some 1\<rparr>)) @
        reported (validateOptionalString obj ''notes'' (basePath @ ''.notes'')) @
        (if truthy (outcome (given (validateIsoDate obj ''issueDate'' (basePath @ ''.issueDate'')) True)) \<and>
            truthy (outcome (given (validateIsoDate obj ''dueDate'' (basePath @ ''.dueDate'')) False)) \<and>
            js_str_lt (the (outcome (given (validateIsoDate obj ''dueDate'' (basePath @ ''.dueDate'')) False)))
                      (the (outcome (given (validateIsoDate obj ''issueDate'' (basePath @ ''.issueDate'')) True)))
         then [issue DATE_ORDER (basePath @ ''.dueDate'') ''Due date cannot be before issue date''
                 (Some ''Set due date on or after the issue date'')]
         else []))"
  apply (simp add: validateHeader_def field_runs Let_def split del: if_split)
  by (simp split: if_split)

lemma validateHeader_run:
  "validateHeader input basePath issues =
     (outcome (validateHeader input basePath), issues @ reported (validateHeader input basePath))"
  by (cases "isObject input")
     (simp_all add: outcome_def[of "validateHeader input basePath"]
        reported_def[of "validateHeader input basePath"]
        validateHeader_not_object validateHeader_object)

lemma validateLineItem_not_object:
  "isObject input = None \<Longrightarrow>
     validateLineItem input basePath issues =
       (None, issues @ [issue INVALID_TYPE basePath ''line item must be an object'' None])"
  by (simp add: validateLineItem_def)

lemma validateLineItem_object:
  "isObject input = Some obj \<Longrightarrow>
     validateLineItem input basePath issues =
       ((if \<not> truthy (outcome (validateRequiredString obj ''description'' (basePath @ ''.description''))) \<or>
            outcome (given (validateRequiredNumber obj ''quantity'' (basePath @ ''.quantity'')) (Some \<lparr>NumberOptions.allowNegative = Some False, allowZero = Some False\<rparr>)) = None \<or>
            outcome (given (validateRequiredNumber obj ''unitPrice'' (basePath @ ''.unitPrice'')) (Some \<lparr>NumberOptions.allowNegative = Some False, allowZero = None\<rparr>)) = None
         then None
         else Some
           \<lparr>LineItem.description = the (outcome (validateRequiredString obj ''description'' (basePath @ ''.description''))),
            LineItem.quantity = the (outcome (given (validateRequiredNumber obj ''quantity'' (basePath @ ''.quantity'')) (Some \<lparr>NumberOptions.allowNegative = Some False, allowZero = Some False\<rparr>))),
            LineItem.unitPrice = the (outcome (given (validateRequiredNumber obj ''unitPrice'' (basePath @ ''.unitPrice'')) (Some \<lparr>NumberOptions.allowNegative = Some False, allowZero = None\<rparr>))),
            LineItem.unit = (if truthy (outcome (validateOptionalString obj ''unit'' (basePath @ ''.unit'')))
                    then outcome (validateOptionalString obj ''unit'' (basePath @ ''.unit'')) else None)\<rparr>),
        issues @
        reported (validateRequiredString obj ''description'' (basePath @ ''.description'')) @
        reported (given (validateRequiredNumber obj ''quantity'' (basePath @ ''.quantity'')) (Some \<lparr>NumberOptions.allowNegative = Some False, allowZero = Some False\<rparr>)) @
        reported (given (validateRequiredNumber obj ''unitPrice'' (basePath @ ''.unitPrice'')) (Some \<lparr>NumberOptions.allowNegative = Some False, allowZero = None\<rparr>)) @
        reported (validateOptionalString obj ''unit'' (basePath @ ''.unit'')))"
  by (simp add: validateLineItem_def field_runs Let_def split del: if_split)

lemma validateLineItem_run:
  "validateLineItem input basePath issues =
     (outcome (validateLineItem input basePath), issues @ reported (validateLineItem input basePath))"
  by (cases "isObject input")
     (simp_all add: outcome_def[of "validateLineItem input basePath"]
        reported_def[of "validateLineItem input basePath"]
        validateLineItem_not_object validateLineItem_object)

subsection \<open>The loop over the line items\<close>

lemma list_ex_upt_Suc:
  "list_ex P [0 ..< Suc n] = (P 0 \<or> list_ex (\<lambda>k. P (Suc k)) [0 ..< n])"
proof -
  have e: "[0 ..< Suc n] = 0 # map Suc [0 ..< n]"
    by (simp only: upt_conv_Cons [OF zero_less_Suc] map_Suc_upt)
  have "list_ex P (0 # map Suc [0 ..< n]) = (P 0 \<or> list_ex (\<lambda>k. P (Suc k)) [0 ..< n])"
    by (simp only: list_ex_iff list.set set_map bex_simps image_iff)
  then show ?thesis
    by (simp only: e)
qed

lemma validateLineItemsLoop_run:
  "validateLineItemsLoop elems i basePath items hasError issues =
     ((items @
       concat (map (\<lambda>k. case outcome (validateLineItem (elems ! k) (basePath @ ''['' @ showNat (i + k) @ '']'')) of
                           None \<Rightarrow> [] | Some item \<Rightarrow> [item])
                 [0 ..< length elems]),
       hasError \<or>
       list_ex (\<lambda>k. outcome (validateLineItem (elems ! k) (basePath @ ''['' @ showNat (i + k) @ '']'')) = None)
         [0 ..< length elems]),
      issues @
      concat (map (\<lambda>k. reported (validateLineItem (elems ! k) (basePath @ ''['' @ showNat (i + k) @ '']'')))
                [0 ..< length elems]))"
proof (induction elems arbitrary: i items hasError issues)
  case Nil
  show ?case by simp
next
  case (Cons x rest)
  show ?case
  proof (cases "outcome (validateLineItem x (basePath @ ''['' @ showNat i @ '']''))")
    case None
    then show ?thesis
      by (simp add: validateLineItem_run [of x _ issues] Cons.IH map_upt_Suc list_ex_upt_Suc del: upt_Suc)
  next
    case (Some item)
    then show ?thesis
      by (simp add: validateLineItem_run [of x _ issues] Cons.IH map_upt_Suc list_ex_upt_Suc del: upt_Suc)
  qed
qed

lemma validateLineItems_array:
  "elems \<noteq> [] \<Longrightarrow>
     validateLineItems (JArr elems) basePath issues =
       ((if list_ex (\<lambda>k. outcome (validateLineItem (elems ! k) (basePath @ ''['' @ showNat k @ '']'')) = None)
              [0 ..< length elems]
         then None
         else Some (concat (map (\<lambda>k. case outcome (validateLineItem (elems ! k)
                                                      (basePath @ ''['' @ showNat k @ '']'')) of
                                         None \<Rightarrow> [] | Some item \<Rightarrow> [item])
                               [0 ..< length elems]))),
        issues @
        concat (map (\<lambda>k. reported (validateLineItem (elems ! k) (basePath @ ''['' @ showNat k @ '']'')))
                  [0 ..< length elems]))"
  by (simp add: validateLineItems_def validateLineItemsLoop_run)

lemma validateLineItems_empty:
  "validateLineItems (JArr []) basePath issues =
     (None, issues @ [issue EMPTY_ARRAY basePath ''At least one line item is required''
                        (Some ''Add at least one item to the invoice'')])"
  by (simp add: validateLineItems_def)

lemma validateLineItems_not_array:
  "(\<And>elems. input \<noteq> JArr elems) \<Longrightarrow>
     validateLineItems input basePath issues =
       (None, issues @ [issue INVALID_TYPE basePath ''lineItems must be an array'' None])"
  by (cases input) (auto simp: validateLineItems_def)

lemma validateLineItems_run:
  "validateLineItems input basePath issues =
     (outcome (validateLineItems input basePath), issues @ reported (validateLineItems input basePath))"
proof (cases "\<exists>elems. input = JArr elems")
  case True
  then obtain elems where e: "input = JArr elems" by blast
  show ?thesis
  proof (cases "elems = []")
    case True
    with e show ?thesis
      by (simp add: outcome_def reported_def validateLineItems_empty)
  next
    case False
    then show ?thesis
      unfolding e
      by (simp add: outcome_def [of "validateLineItems (JArr elems) basePath"]
          reported_def [of "validateLineItems (JArr elems) basePath"] validateLineItems_array)
  qed
next
  case False
  then have "\<And>elems. input \<noteq> JArr elems" by blast
  then show ?thesis
    by (simp add: outcome_def [of "validateLineItems input basePath"]
        reported_def [of "validateLineItems input basePath"] validateLineItems_not_array)
qed

subsection \<open>The entry point\<close>

lemma validateDraft_not_object:
  "isObject input = None \<Longrightarrow>
     validateDraft input = Invalid [issue INVALID_TYPE [] ''Input must be an object'' None]"
  by (simp add: validateDraft_def)

lemma validateDraft_object:
  "isObject input = Some obj \<Longrightarrow>
     validateDraft input =
       (if reported (validateBusiness (obj ''business'') ''business'') @
           reported (validateClient (obj ''client'') ''client'') @
           reported (validateHeader (obj ''header'') ''header'') @
           reported (validateLineItems (obj ''lineItems'') ''lineItems'') \<noteq> [] \<or>
           outcome (validateBusiness (obj ''business'') ''business'') = None \<or>
           outcome (validateClient (obj ''client'') ''client'') = None \<or>
           outcome (validateHeader (obj ''header'') ''header'') = None \<or>
           outcome (validateLineItems (obj ''lineItems'') ''lineItems'') = None
        then Invalid
               (reported (validateBusiness (obj ''business'') ''business'') @
                reported (validateClient (obj ''client'') ''client'') @
                reported (validateHeader (obj ''header'') ''header'') @
                reported (validateLineItems (obj ''lineItems'') ''lineItems''))
        else Valid
               \<lparr>InvoiceDraft.business = the (outcome (validateBusiness (obj ''business'') ''business'')),
                InvoiceDraft.client = the (outcome (validateClient (obj ''client'') ''client'')),
                InvoiceDraft.header = the (outcome (validateHeader (obj ''header'') ''header'')),
                InvoiceDraft.lineItems = the (outcome (validateLineItems (obj ''lineItems'') ''lineItems''))\<rparr>)"
  by (simp add: validateDraft_def Let_def validateBusiness_run [of _ _ "[]"]
      validateClient_run [of _ _ "reported (validateBusiness (obj ''business'') ''business'')"]
      validateHeader_run [of _ _ "reported (validateBusiness (obj ''business'') ''business'') @
           reported (validateClient (obj ''client'') ''client'')"]
      validateLineItems_run [of _ _ "reported (validateBusiness (obj ''business'') ''business'') @
           reported (validateClient (obj ''client'') ''client'') @
           reported (validateHeader (obj ''header'') ''header'')"])

section \<open>A missing result always comes with an issue\<close>

lemma validateRequiredString_falsy:
  "\<not> truthy (outcome (validateRequiredString obj field pth)) \<Longrightarrow>
     reported (validateRequiredString obj field pth) \<noteq> []"
  by (cases "obj field")
     (simp_all add: outcome_def reported_def validateRequiredString_def truthy_def Let_def
        split: if_splits)

lemma validateRequiredNumber_none:
  "outcome (given (validateRequiredNumber obj field pth) opts) = None \<Longrightarrow>
     reported (given (validateRequiredNumber obj field pth) opts) \<noteq> []"
  by (cases "obj field")
     (simp_all add: outcome_def reported_def given_def validateRequiredNumber_def
        validateNumberValue_def isNumber_def Let_def split: if_splits)

lemma toISODate_not_empty: "toISODate t \<noteq> []"
  by (cases t) (simp add: toISODate_def)

lemma ISO_DATE_REGEX_not_empty: "ISO_DATE_REGEX s \<Longrightarrow> s \<noteq> []"
  by (auto simp: ISO_DATE_REGEX_def)

lemma validateIsoDate_required_falsy:
  "\<not> truthy (outcome (given (validateIsoDate obj field pth) True)) \<Longrightarrow>
     reported (given (validateIsoDate obj field pth) True) \<noteq> []"
  by (cases "obj field")
     (auto simp: outcome_def reported_def given_def validateIsoDate_def truthy_def Let_def
        toISODate_not_empty ISO_DATE_REGEX_not_empty split: option.splits if_splits)

lemma validateCurrency_falsy:
  "\<not> truthy (outcome (validateCurrency obj field pth)) \<Longrightarrow>
     reported (validateCurrency obj field pth) \<noteq> []"
proof -
  assume a: "\<not> truthy (outcome (validateCurrency obj field pth))"
  show ?thesis
  proof (cases "truthy (outcome (validateRequiredString obj field pth))")
    case False
    then have "reported (validateRequiredString obj field pth) \<noteq> []"
      by (rule validateRequiredString_falsy)
    with False show ?thesis
      by (simp add: reported_def [of "validateCurrency obj field pth"] validateCurrency_def
          validateRequiredString_run)
  next
    case True
    then have "toUpperCase (the (outcome (validateRequiredString obj field pth))) \<noteq> []"
      by (auto simp: truthy_def toUpperCase_def split: option.splits)
    with True a show ?thesis
      by (simp add: reported_def [of "validateCurrency obj field pth"]
          outcome_def [of "validateCurrency obj field pth"] validateCurrency_def
          validateRequiredString_run Let_def truthy_def split: if_splits)
  qed
qed

lemma validateBusiness_none:
  "outcome (validateBusiness input basePath) = None \<Longrightarrow> reported (validateBusiness input basePath) \<noteq> []"
proof (cases "isObject input")
  case None
  then show ?thesis
    by (simp add: reported_def validateBusiness_not_object)
next
  case (Some obj)
  assume "outcome (validateBusiness input basePath) = None"
  with Some have
    "\<not> truthy (outcome (validateRequiredString obj ''name'' (basePath @ ''.name''))) \<or>
     \<not> truthy (outcome (validateRequiredString obj ''address'' (basePath @ ''.address''))) \<or>
     \<not> truthy (outcome (validateRequiredString obj ''email'' (basePath @ ''.email'')))"
    by (simp add: outcome_def [of "validateBusiness input basePath"] validateBusiness_object
        split: if_splits)
  then have
    "reported (validateRequiredString obj ''name'' (basePath @ ''.name'')) \<noteq> [] \<or>
     reported (validateRequiredString obj ''address'' (basePath @ ''.address'')) \<noteq> [] \<or>
     reported (validateRequiredString obj ''email'' (basePath @ ''.email'')) \<noteq> []"
    using validateRequiredString_falsy by blast
  with Some show ?thesis
    by (auto simp: reported_def [of "validateBusiness input basePath"] validateBusiness_object)
qed

lemma validateClient_none:
  "outcome (validateClient input basePath) = None \<Longrightarrow> reported (validateClient input basePath) \<noteq> []"
proof (cases "isObject input")
  case None
  then show ?thesis
    by (simp add: reported_def validateClient_not_object)
next
  case (Some obj)
  assume "outcome (validateClient input basePath) = None"
  with Some have
    "\<not> truthy (outcome (validateRequiredString obj ''name'' (basePath @ ''.name''))) \<or>
     \<not> truthy (outcome (validateRequiredString obj ''address'' (basePath @ ''.address'')))"
    by (simp add: outcome_def [of "validateClient input basePath"] validateClient_object
        split: if_splits)
  then have
    "reported (validateRequiredString obj ''name'' (basePath @ ''.name'')) \<noteq> [] \<or>
     reported (validateRequiredString obj ''address'' (basePath @ ''.address'')) \<noteq> []"
    using validateRequiredString_falsy by blast
  with Some show ?thesis
    by (auto simp: reported_def [of "validateClient input basePath"] validateClient_object)
qed

lemma validateHeader_none:
  "outcome (validateHeader input basePath) = None \<Longrightarrow> reported (validateHeader input basePath) \<noteq> []"
proof (cases "isObject input")
  case None
  then show ?thesis
    by (simp add: reported_def validateHeader_not_object)
next
  case (Some obj)
  assume "outcome (validateHeader input basePath) = None"
  with Some have
    "\<not> truthy (outcome (validateRequiredString obj ''invoiceNumber'' (basePath @ ''.invoiceNumber''))) \<or>
     \<not> truthy (outcome (given (validateIsoDate obj ''issueDate'' (basePath @ ''.issueDate'')) True)) \<or>
     \<not> truthy (outcome (validateCurrency obj ''currency'' (basePath @ ''.currency'')))"
    by (simp add: outcome_def [of "validateHeader input basePath"] validateHeader_object
        split: if_splits)
  then have
    "reported (validateRequiredString obj ''invoiceNumber'' (basePath @ ''.invoiceNumber'')) \<noteq> [] \<or>
     reported (given (validateIsoDate obj ''issueDate'' (basePath @ ''.issueDate'')) True) \<noteq> [] \<or>
     reported (validateCurrency obj ''currency'' (basePath @ ''.currency'')) \<noteq> []"
    using validateRequiredString_falsy validateIsoDate_required_falsy validateCurrency_falsy by blast
  with Some show ?thesis
    by (auto simp: reported_def [of "validateHeader input basePath"] validateHeader_object)
qed

lemma validateLineItem_none:
  "outcome (validateLineItem input basePath) = None \<Longrightarrow> reported (validateLineItem input basePath) \<noteq> []"
proof (cases "isObject input")
  case None
  then show ?thesis
    by (simp add: reported_def validateLineItem_not_object)
next
  case (Some obj)
  assume "outcome (validateLineItem input basePath) = None"
  with Some have
    "\<not> truthy (outcome (validateRequiredString obj ''description'' (basePath @ ''.description''))) \<or>
     outcome (given (validateRequiredNumber obj ''quantity'' (basePath @ ''.quantity''))
                (Some \<lparr>NumberOptions.allowNegative = Some False, allowZero = Some False\<rparr>)) = None \<or>
     outcome (given (validateRequiredNumber obj ''unitPrice'' (basePath @ ''.unitPrice''))
                (Some \<lparr>NumberOptions.allowNegative = Some False, allowZero = None\<rparr>)) = None"
    by (simp add: outcome_def [of "validateLineItem input basePath"] validateLineItem_object
        split: if_splits)
  then have
    "reported (validateRequiredString obj ''description'' (basePath @ ''.description'')) \<noteq> [] \<or>
     reported (given (validateRequiredNumber obj ''quantity'' (basePath @ ''.quantity''))
                 (Some \<lparr>NumberOptions.allowNegative = Some False, allowZero = Some False\<rparr>)) \<noteq> [] \<or>
     reported (given (validateRequiredNumber obj ''unitPrice'' (basePath @ ''.unitPrice''))
                 (Some \<lparr>NumberOptions.allowNegative = Some False, allowZero = None\<rparr>)) \<noteq> []"
    using validateRequiredString_falsy validateRequiredNumber_none by blast
  with Some show ?thesis
    by (auto simp: reported_def [of "validateLineItem input basePath"] validateLineItem_object)
qed

lemma validateLineItems_none:
  "outcome (validateLineItems input basePath) = None \<Longrightarrow> reported (validateLineItems input basePath) \<noteq> []"
proof (cases "\<exists>elems. input = JArr elems")
  case False
  then have "\<And>elems. input \<noteq> JArr elems" by blast
  then show ?thesis
    by (simp add: reported_def validateLineItems_not_array)
next
  case True
  then obtain elems where e: "input = JArr elems" by blast
  assume n: "outcome (validateLineItems input basePath) = None"
  show ?thesis
  proof (cases "elems = []")
    case True
    with e show ?thesis
      by (simp add: reported_def validateLineItems_empty)
  next
    case False
    with n e obtain k where k: "k < length elems"
      and "outcome (validateLineItem (elems ! k) (basePath @ ''['' @ showNat k @ '']'')) = None"
      by (auto simp: outcome_def [of "validateLineItems (JArr elems) basePath"]
          validateLineItems_array list_ex_iff split: if_splits)
    then have "reported (validateLineItem (elems ! k) (basePath @ ''['' @ showNat k @ '']'')) \<noteq> []"
      by (simp add: validateLineItem_none)
    with k False show ?thesis
      unfolding e
      by (auto simp: reported_def [of "validateLineItems (JArr elems) basePath"]
          validateLineItems_array)
  qed
qed

text \<open>
  C9. Whenever \<open>validateDraft\<close> answers \<open>ok: false\<close>, the list of issues it returns
  is not empty: every way in which a group validator returns \<open>undefined\<close> pushes at
  least one issue first.
\<close>

theorem validateDraft_failure_has_issue:
  "validateDraft input = Invalid issues \<Longrightarrow> issues \<noteq> []"
proof (cases "isObject input")
  case None
  assume "validateDraft input = Invalid issues"
  with None show ?thesis
    by (auto simp: validateDraft_not_object)
next
  case (Some obj)
  assume a: "validateDraft input = Invalid issues"
  show ?thesis
  proof (rule ccontr)
    assume "\<not> issues \<noteq> []"
    with a Some have all_empty:
      "reported (validateBusiness (obj ''business'') ''business'') = []"
      "reported (validateClient (obj ''client'') ''client'') = []"
      "reported (validateHeader (obj ''header'') ''header'') = []"
      "reported (validateLineItems (obj ''lineItems'') ''lineItems'') = []"
      by (auto simp: validateDraft_object split: if_splits)
    then have
      "outcome (validateBusiness (obj ''business'') ''business'') \<noteq> None"
      "outcome (validateClient (obj ''client'') ''client'') \<noteq> None"
      "outcome (validateHeader (obj ''header'') ''header'') \<noteq> None"
      "outcome (validateLineItems (obj ''lineItems'') ''lineItems'') \<noteq> None"
      using validateBusiness_none validateClient_none validateHeader_none validateLineItems_none
      by blast+
    with all_empty a Some show False
      by (simp add: validateDraft_object)
  qed
qed

theorem validateDraft_failure_has_issue_witness:
  "validateDraft emptyGroups = Invalid (issuesOf (validateDraft emptyGroups)) \<and>
   map path (issuesOf (validateDraft emptyGroups)) =
     [''business.name'', ''business.address'', ''business.email'', ''client.name'',
      ''client.address'', ''header.invoiceNumber'', ''header.issueDate'', ''header.currency'',
      ''lineItems''] \<and>
   issuesOf (validateDraft emptyGroups) \<noteq> []"
proof -
  have failed: "validateDraft emptyGroups = Invalid (issuesOf (validateDraft emptyGroups))"
    by code_simp
  have paths: "map path (issuesOf (validateDraft emptyGroups)) =
     [''business.name'', ''business.address'', ''business.email'', ''client.name'',
      ''client.address'', ''header.invoiceNumber'', ''header.issueDate'', ''header.currency'',
      ''lineItems'']"
    by code_simp
  from validateDraft_failure_has_issue [OF failed] failed paths show ?thesis
    by blast
qed

section \<open>Issues are accumulated over the whole input\<close>

lemma issuesOf_validateDraft:
  "isObject input = Some obj \<Longrightarrow>
     issuesOf (validateDraft input) =
       reported (validateBusiness (obj ''business'') ''business'') @
       reported (validateClient (obj ''client'') ''client'') @
       reported (validateHeader (obj ''header'') ''header'') @
       reported (validateLineItems (obj ''lineItems'') ''lineItems'')"
  by (simp add: validateDraft_object issuesOf_def)

lemma reported_validateLineItems:
  "elems \<noteq> [] \<Longrightarrow>
     reported (validateLineItems (JArr elems) basePath) =
       concat (map (\<lambda>k. reported (validateLineItem (elems ! k) (basePath @ ''['' @ showNat k @ '']'')))
                 [0 ..< length elems])"
  by (simp add: reported_def [of "validateLineItems (JArr elems) basePath"] validateLineItems_array)

lemma reported_validateLineItem:
  "isObject item = Some obj \<Longrightarrow>
     reported (validateLineItem item basePath) =
       reported (validateRequiredString obj ''description'' (basePath @ ''.description'')) @
       reported (given (validateRequiredNumber obj ''quantity'' (basePath @ ''.quantity''))
                   (Some \<lparr>NumberOptions.allowNegative = Some False, allowZero = Some False\<rparr>)) @
       reported (given (validateRequiredNumber obj ''unitPrice'' (basePath @ ''.unitPrice''))
                   (Some \<lparr>NumberOptions.allowNegative = Some False, allowZero = None\<rparr>)) @
       reported (validateOptionalString obj ''unit'' (basePath @ ''.unit''))"
  by (simp add: reported_def [of "validateLineItem item basePath"] validateLineItem_object)

lemma reported_validateBusiness:
  "isObject input = Some obj \<Longrightarrow>
     reported (validateBusiness input basePath) =
       reported (validateRequiredString obj ''name'' (basePath @ ''.name'')) @
       reported (validateRequiredString obj ''address'' (basePath @ ''.address'')) @
       reported (validateRequiredString obj ''email'' (basePath @ ''.email'')) @
       reported (validateOptionalString obj ''phone'' (basePath @ ''.phone'')) @
       reported (validateOptionalString obj ''logoUrl'' (basePath @ ''.logoUrl'')) @
       reported (validateOptionalString obj ''taxId'' (basePath @ ''.taxId''))"
  by (simp add: reported_def [of "validateBusiness input basePath"] validateBusiness_object)

lemma reported_validateClient:
  "isObject input = Some obj \<Longrightarrow>
     reported (validateClient input basePath) =
       reported (validateRequiredString obj ''name'' (basePath @ ''.name'')) @
       reported (validateRequiredString obj ''address'' (basePath @ ''.address'')) @
       reported (validateOptionalString obj ''email'' (basePath @ ''.email''))"
  by (simp add: reported_def [of "validateClient input basePath"] validateClient_object)

lemma reported_validateHeader:
  "isObject input = Some obj \<Longrightarrow>
     reported (validateHeader input basePath) =
       reported (validateRequiredString obj ''invoiceNumber'' (basePath @ ''.invoiceNumber'')) @
       reported (given (validateIsoDate obj ''issueDate'' (basePath @ ''.issueDate'')) True) @
       reported (given (validateIsoDate obj ''dueDate'' (basePath @ ''.dueDate'')) False) @
       reported (validateCurrency obj ''currency'' (basePath @ ''.currency'')) @
       reported (given (validateOptionalNumber obj ''taxRate'' (basePath @ ''.taxRate''))
                   (Some \<lparr>RangeOptions.allowNegative = Some False, min_bound = Some 0, max_bound = Some 1\<rparr>)) @
       reported (validateOptionalString obj ''notes'' (basePath @ ''.notes'')) @
       (if truthy (outcome (given (validateIsoDate obj ''issueDate'' (basePath @ ''.issueDate'')) True)) \<and>
           truthy (outcome (given (validateIsoDate obj ''dueDate'' (basePath @ ''.dueDate'')) False)) \<and>
           js_str_lt (the (outcome (given (validateIsoDate obj ''dueDate'' (basePath @ ''.dueDate'')) False)))
                     (the (outcome (given (validateIsoDate obj ''issueDate'' (basePath @ ''.issueDate'')) True)))
        then [issue DATE_ORDER (basePath @ ''.dueDate'') ''Due date cannot be before issue date''
                (Some ''Set due date on or after the issue date'')]
        else [])"
  by (simp add: reported_def [of "validateHeader input basePath"] validateHeader_object)



section \<open>Computation\<close>


lemma computeInvoice_draft:
  "InvoiceDraft.truncate (computeInvoice d) = d"
  by (simp add: computeInvoice_def Let_def InvoiceDraft.extend_def InvoiceComputed.fields_def
      InvoiceDraft.truncate_def)








text \<open>
  C7. For every computed invoice, whatever its \<open>computed\<close> field holds,
  \<open>recomputeInvoice\<close> is \<open>computeInvoice\<close> on its four draft fields: the result does
  not change when the old totals are replaced by any others, and it carries the
  draft fields unchanged.
\<close>

theorem recomputeInvoice_from_draft_fields:
  "recomputeInvoice i =
     computeInvoice
       \<lparr>InvoiceDraft.business = InvoiceDraft.business i, InvoiceDraft.client = InvoiceDraft.client i,
        InvoiceDraft.header = InvoiceDraft.header i, InvoiceDraft.lineItems = InvoiceDraft.lineItems i\<rparr> \<and>
   recomputeInvoice (i\<lparr>computed := stale\<rparr>) = recomputeInvoice i \<and>
   InvoiceDraft.truncate (recomputeInvoice i) = InvoiceDraft.truncate i \<and>
   computed (recomputeInvoice (i\<lparr>computed := stale\<rparr>)) =
     computed (computeInvoice (InvoiceDraft.truncate i))"
  by (simp add: recomputeInvoice_def InvoiceDraft.truncate_def computeInvoice_def Let_def
      InvoiceDraft.extend_def InvoiceComputed.fields_def)

section \<open>Pipeline\<close>



section \<open>Numeric strings\<close>



lemma validateNumberValue_codes:
  "\<not> hasCode INVALID_TYPE (reported (given (validateNumberValue v field pth) opts))"
  by (simp add: reported_def given_def validateNumberValue_def Let_def hasCode_def issue_def)




section \<open>Formatting of optional fields\<close>













section \<open>Dates\<close>

lemma daysInMonth_le_31: "daysInMonth y m \<le> 31"
  by (simp add: daysInMonth_def)

lemma newDateUTC_unchanged:
  "(case newDateUTC y m d of
      None \<Rightarrow> False
    | Some date \<Rightarrow> \<not> (fst date \<noteq> int y \<or> fst (snd date) \<noteq> m \<or> snd (snd date) \<noteq> d)) =
   isCalendarDate (y, m, d)"
  using daysInMonth_le_31 [of "int y" m]
  by (auto simp: newDateUTC_def isCalendarDate_def)

lemma trim_Nil: "trim [] = []"
  by (simp add: trim_def)

lemma ISO_DATE_REGEX_trim_not_empty: "ISO_DATE_REGEX (trim s) \<Longrightarrow> s \<noteq> []"
  by (auto simp: ISO_DATE_REGEX_def trim_Nil)

lemma validateIsoDate_bad_format:
  "obj field = JStr s \<Longrightarrow> s \<noteq> [] \<Longrightarrow> \<not> ISO_DATE_REGEX (trim s) \<Longrightarrow>
     validateIsoDate obj field pth issues required =
       (None, issues @ [issue INVALID_FORMAT pth (field @ '' must be in YYYY-MM-DD format'')
                          (Some ''Example: 2025-01-15'')])"
  by (simp add: validateIsoDate_def Let_def)

lemma validateIsoDate_not_a_date:
  "obj field = JStr s \<Longrightarrow> ISO_DATE_REGEX (trim s) \<Longrightarrow> \<not> isCalendarDate (dateNumbers (trim s)) \<Longrightarrow>
     validateIsoDate obj field pth issues required =
       (None, issues @ [issue INVALID_DATE pth
          (field @ (if newDateUTC (fst (dateNumbers (trim s))) (fst (snd (dateNumbers (trim s))))
                         (snd (snd (dateNumbers (trim s)))) = None
                    then '' is not a valid date'' else '' is not a valid calendar date'')) None])"
  using newDateUTC_unchanged [of "natOfDigits 0 (take 4 (trim s))"
      "natOfDigits 0 (take 2 (drop 5 (trim s)))" "natOfDigits 0 (drop 8 (trim s))"]
    ISO_DATE_REGEX_trim_not_empty [of s]
  by (auto simp: validateIsoDate_def dateNumbers_def Let_def split: option.splits)

lemma validateIsoDate_real_date:
  "obj field = JStr s \<Longrightarrow> ISO_DATE_REGEX (trim s) \<Longrightarrow> isCalendarDate (dateNumbers (trim s)) \<Longrightarrow>
     validateIsoDate obj field pth issues required = (Some (trim s), issues)"
  using newDateUTC_unchanged [of "natOfDigits 0 (take 4 (trim s))"
      "natOfDigits 0 (take 2 (drop 5 (trim s)))" "natOfDigits 0 (drop 8 (trim s))"]
    ISO_DATE_REGEX_trim_not_empty [of s]
  by (auto simp: validateIsoDate_def dateNumbers_def Let_def split: option.splits)

lemma validateIsoDate_native:
  "obj field = JDate (Some t) \<Longrightarrow>
     validateIsoDate obj field pth issues required = (Some (toISODate t), issues)"
  by (simp add: validateIsoDate_def)

lemma validateIsoDate_invalid_native:
  "obj field = JDate None \<Longrightarrow>
     validateIsoDate obj field pth issues required =
       (None, issues @ [issue INVALID_DATE pth (field @ '' is not a valid date'') None])"
  by (simp add: validateIsoDate_def)

lemma validateIsoDate_empty:
  "obj field = JStr [] \<Longrightarrow>
     validateIsoDate obj field pth issues required =
       (None, if required then issues @ [issue MISSING_REQUIRED pth (field @ '' is required'') None]
              else issues)"
  by (simp add: validateIsoDate_def)

lemma hasIssue_append:
  "hasIssue c p (xs @ ys) = (hasIssue c p xs \<or> hasIssue c p ys)"
  by (simp add: hasIssue_def)

lemma hasCode_append:
  "hasCode c (xs @ ys) = (hasCode c xs \<or> hasCode c ys)"
  by (simp add: hasCode_def)

lemma validateDraft_impossible_issueDate:
  assumes "isObject input = Some obj" and "isObject (obj ''header'') = Some h"
    and "h ''issueDate'' = JStr s" and "ISO_DATE_REGEX (trim s)"
    and "\<not> isCalendarDate (dateNumbers (trim s))"
  shows "validateDraft input = Invalid (issuesOf (validateDraft input)) \<and>
         hasIssue INVALID_DATE ''header.issueDate'' (issuesOf (validateDraft input))"
proof -
  from validateIsoDate_not_a_date
    [where obj = h and field = "''issueDate''" and s = s and pth = "''header.issueDate''"
       and issues = "[]" and required = True, OF assms(3-5)]
  have "hasIssue INVALID_DATE ''header.issueDate''
          (reported (given (validateIsoDate h ''issueDate'' ''header.issueDate'') True))"
    by (simp add: reported_def given_def hasIssue_def issue_def)
  then have "hasIssue INVALID_DATE ''header.issueDate'' (reported (validateHeader (obj ''header'') ''header''))"
    by (simp add: reported_validateHeader [OF assms(2)] hasIssue_append)
  then have found: "hasIssue INVALID_DATE ''header.issueDate'' (issuesOf (validateDraft input))"
    by (simp add: issuesOf_validateDraft [OF assms(1)] hasIssue_append)
  then have "issuesOf (validateDraft input) \<noteq> []"
    by (auto simp: hasIssue_def)
  then have "validateDraft input = Invalid (issuesOf (validateDraft input))"
    by (cases "validateDraft input") (simp_all add: issuesOf_def)
  with found show ?thesis
    by blast
qed

text \<open>
  C5, as amended. A date field that holds a valid native date is accepted as the
  date part of its ISO text, and an invalid native date is reported as INVALID_DATE.
  The empty string counts as a missing value: MISSING_REQUIRED when the field is
  required, nothing otherwise. Any other string is trimmed first: when the trimmed
  text does not have the shape YYYY-MM-DD the field is reported as INVALID_FORMAT;
  when it has the shape but its year, month and day are not a day of the calendar
  (they do not come back unchanged from date construction) it is reported as
  INVALID_DATE at the field's path; otherwise it is accepted as the trimmed text.
  In particular an input whose header holds such an impossible issue date, like
  \<open>"2025-02-30"\<close>, fails validation with an issue INVALID_DATE at
  \<open>header.issueDate\<close>.
\<close>

theorem validateIsoDate_by_cases:
  "(obj field = JDate (Some t) \<longrightarrow>
      validateIsoDate obj field pth issues required = (Some (toISODate t), issues)) \<and>
   (obj field = JDate None \<longrightarrow>
      fst (validateIsoDate obj field pth issues required) = None \<and>
      hasIssue INVALID_DATE pth (reported (given (validateIsoDate obj field pth) required))) \<and>
   (obj field = JStr [] \<longrightarrow>
      validateIsoDate obj field pth issues required =
        (None, if required then issues @ [issue MISSING_REQUIRED pth (field @ '' is required'') None]
               else issues)) \<and>
   (obj field = JStr s \<and> s \<noteq> [] \<and> \<not> ISO_DATE_REGEX (trim s) \<longrightarrow>
      fst (validateIsoDate obj field pth issues required) = None \<and>
      map code (reported (given (validateIsoDate obj field pth) required)) = [INVALID_FORMAT] \<and>
      map path (reported (given (validateIsoDate obj field pth) required)) = [pth]) \<and>
   (obj field = JStr s \<and> ISO_DATE_REGEX (trim s) \<and> \<not> isCalendarDate (dateNumbers (trim s)) \<longrightarrow>
      fst (validateIsoDate obj field pth issues required) = None \<and>
      map code (reported (given (validateIsoDate obj field pth) required)) = [INVALID_DATE] \<and>
      map path (reported (given (validateIsoDate obj field pth) required)) = [pth]) \<and>
   (obj field = JStr s \<and> ISO_DATE_REGEX (trim s) \<and> isCalendarDate (dateNumbers (trim s)) \<longrightarrow>
      validateIsoDate obj field pth issues required = (Some (trim s), issues)) \<and>
   (isObject input = Some inputObj \<and> isObject (inputObj ''header'') = Some headerObj \<and>
    headerObj ''issueDate'' = JStr s \<and> ISO_DATE_REGEX (trim s) \<and>
    \<not> isCalendarDate (dateNumbers (trim s)) \<longrightarrow>
      validateDraft input = Invalid (issuesOf (validateDraft input)) \<and>
      hasIssue INVALID_DATE ''header.issueDate'' (issuesOf (validateDraft input)))"
proof -
  have native: "obj field = JDate (Some t) \<longrightarrow>
      validateIsoDate obj field pth issues required = (Some (toISODate t), issues)"
    by (simp add: validateIsoDate_native)
  have invalid_native: "obj field = JDate None \<longrightarrow>
      fst (validateIsoDate obj field pth issues required) = None \<and>
      hasIssue INVALID_DATE pth (reported (given (validateIsoDate obj field pth) required))"
    by (simp add: validateIsoDate_invalid_native reported_def given_def hasIssue_def issue_def)
  have empty: "obj field = JStr [] \<longrightarrow>
      validateIsoDate obj field pth issues required =
        (None, if required then issues @ [issue MISSING_REQUIRED pth (field @ '' is required'') None]
               else issues)"
    by (simp add: validateIsoDate_empty)
  have format: "obj field = JStr s \<and> s \<noteq> [] \<and> \<not> ISO_DATE_REGEX (trim s) \<longrightarrow>
      fst (validateIsoDate obj field pth issues required) = None \<and>
      map code (reported (given (validateIsoDate obj field pth) required)) = [INVALID_FORMAT] \<and>
      map path (reported (given (validateIsoDate obj field pth) required)) = [pth]"
    by (simp add: validateIsoDate_bad_format reported_def given_def issue_def)
  have impossible: "obj field = JStr s \<and> ISO_DATE_REGEX (trim s) \<and>
      \<not> isCalendarDate (dateNumbers (trim s)) \<longrightarrow>
      fst (validateIsoDate obj field pth issues required) = None \<and>
      map code (reported (given (validateIsoDate obj field pth) required)) = [INVALID_DATE] \<and>
      map path (reported (given (validateIsoDate obj field pth) required)) = [pth]"
    by (simp add: validateIsoDate_not_a_date reported_def given_def issue_def)
  have real: "obj field = JStr s \<and> ISO_DATE_REGEX (trim s) \<and> isCalendarDate (dateNumbers (trim s)) \<longrightarrow>
      validateIsoDate obj field pth issues required = (Some (trim s), issues)"
    by (simp add: validateIsoDate_real_date)
  have whole: "isObject input = Some inputObj \<and> isObject (inputObj ''header'') = Some headerObj \<and>
      headerObj ''issueDate'' = JStr s \<and> ISO_DATE_REGEX (trim s) \<and>
      \<not> isCalendarDate (dateNumbers (trim s)) \<longrightarrow>
      validateDraft input = Invalid (issuesOf (validateDraft input)) \<and>
      hasIssue INVALID_DATE ''header.issueDate'' (issuesOf (validateDraft input))"
    using validateDraft_impossible_issueDate [of input inputObj headerObj s]
    by blast
  from native invalid_native empty format impossible real whole show ?thesis
    by (intro conjI)
qed

theorem validateIsoDate_by_cases_witness:
  "getProp [(''d'', JDate (Some (2025, 1, 15)))] ''d'' = JDate (Some (2025, 1, 15)) \<and>
   validateIsoDate (getProp [(''d'', JDate (Some (2025, 1, 15)))]) ''d'' ''header.d'' [] True =
     (Some ''2025-01-15'', []) \<and>
   getProp [(''d'', JDate None)] ''d'' = JDate None \<and>
   hasIssue INVALID_DATE ''header.d''
     (reported (given (validateIsoDate (getProp [(''d'', JDate None)]) ''d'' ''header.d'') True)) \<and>
   getProp [(''d'', JStr [])] ''d'' = JStr [] \<and>
   validateIsoDate (getProp [(''d'', JStr [])]) ''d'' ''header.d'' [] False = (None, []) \<and>
   getProp [(''d'', JStr ''01-05-2025'')] ''d'' = JStr ''01-05-2025'' \<and>
   ''01-05-2025'' \<noteq> [] \<and> \<not> ISO_DATE_REGEX (trim ''01-05-2025'') \<and>
   map code (reported (given (validateIsoDate (getProp [(''d'', JStr ''01-05-2025'')]) ''d'' ''header.d'')
                         True)) = [INVALID_FORMAT] \<and>
   getProp [(''d'', JStr ''2025-02-30'')] ''d'' = JStr ''2025-02-30'' \<and>
   ISO_DATE_REGEX (trim ''2025-02-30'') \<and> \<not> isCalendarDate (dateNumbers (trim ''2025-02-30'')) \<and>
   map code (reported (given (validateIsoDate (getProp [(''d'', JStr ''2025-02-30'')]) ''d'' ''header.d'')
                         True)) = [INVALID_DATE] \<and>
   getProp [(''d'', JStr '' 2024-02-29 '')] ''d'' = JStr '' 2024-02-29 '' \<and>
   ISO_DATE_REGEX (trim '' 2024-02-29 '') \<and> isCalendarDate (dateNumbers (trim '' 2024-02-29 '')) \<and>
   validateIsoDate (getProp [(''d'', JStr '' 2024-02-29 '')]) ''d'' ''header.d'' [] True =
     (Some ''2024-02-29'', []) \<and>
   isObject february30 =
     Some (getProp [(''business'', sampleBusiness), (''client'', sampleClient),
                    (''header'', JObj [(''invoiceNumber'', JStr ''INV-001''),
                                       (''issueDate'', JStr ''2025-02-30''), (''currency'', JStr ''EUR'')]),
                    (''lineItems'', JArr [sampleItem (JNum (Fin 1)) (JNum (Fin 100))])]) \<and>
   validateDraft february30 = Invalid (issuesOf (validateDraft february30)) \<and>
   hasIssue INVALID_DATE ''header.issueDate'' (issuesOf (validateDraft february30))"
proof -
  have native: "getProp [(''d'', JDate (Some (2025, 1, 15)))] ''d'' = JDate (Some (2025, 1, 15))"
    and invalid: "getProp [(''d'', JDate None)] ''d'' = JDate None"
    and empty: "getProp [(''d'', JStr [])] ''d'' = JStr []"
    and format: "getProp [(''d'', JStr ''01-05-2025'')] ''d'' = JStr ''01-05-2025''"
    and feb: "getProp [(''d'', JStr ''2025-02-30'')] ''d'' = JStr ''2025-02-30''"
    and leap: "getProp [(''d'', JStr '' 2024-02-29 '')] ''d'' = JStr '' 2024-02-29 ''"
    by (simp_all add: getProp_def)
  have shapes:
    "''01-05-2025'' \<noteq> []" "\<not> ISO_DATE_REGEX (trim ''01-05-2025'')"
    "ISO_DATE_REGEX (trim ''2025-02-30'')" "\<not> isCalendarDate (dateNumbers (trim ''2025-02-30''))"
    "ISO_DATE_REGEX (trim '' 2024-02-29 '')" "isCalendarDate (dateNumbers (trim '' 2024-02-29 ''))"
    by code_simp+
  have iso: "toISODate (2025, 1, 15) = ''2025-01-15''" and trimmed: "trim '' 2024-02-29 '' = ''2024-02-29''"
    by code_simp+
  note c1 = validateIsoDate_by_cases
    [where obj = "getProp [(''d'', JDate (Some (2025, 1, 15)))]" and field = "''d''"
       and pth = "''header.d''" and issues = "[]" and required = True and t = "(2025, 1, 15)"]
  note c2 = validateIsoDate_by_cases
    [where obj = "getProp [(''d'', JDate None)]" and field = "''d''"
       and pth = "''header.d''" and issues = "[]" and required = True]
  note c3 = validateIsoDate_by_cases
    [where obj = "getProp [(''d'', JStr [])]" and field = "''d''"
       and pth = "''header.d''" and issues = "[]" and required = False]
  note c4 = validateIsoDate_by_cases
    [where obj = "getProp [(''d'', JStr ''01-05-2025'')]" and field = "''d''"
       and pth = "''header.d''" and issues = "[]" and required = True and s = "''01-05-2025''"]
  note c5 = validateIsoDate_by_cases
    [where obj = "getProp [(''d'', JStr ''2025-02-30'')]" and field = "''d''"
       and pth = "''header.d''" and issues = "[]" and required = True and s = "''2025-02-30''"]
  note c6 = validateIsoDate_by_cases
    [where obj = "getProp [(''d'', JStr '' 2024-02-29 '')]" and field = "''d''"
       and pth = "''header.d''" and issues = "[]" and required = True and s = "'' 2024-02-29 ''"]
  from c1 native iso
  have r1: "validateIsoDate (getProp [(''d'', JDate (Some (2025, 1, 15)))]) ''d'' ''header.d'' [] True =
     (Some ''2025-01-15'', [])"
    by simp
  from c2 invalid
  have r2: "hasIssue INVALID_DATE ''header.d''
     (reported (given (validateIsoDate (getProp [(''d'', JDate None)]) ''d'' ''header.d'') True))"
    by blast
  from c3 empty
  have r3: "validateIsoDate (getProp [(''d'', JStr [])]) ''d'' ''header.d'' [] False = (None, [])"
    by simp
  from c4 format shapes(1,2)
  have r4: "map code (reported (given (validateIsoDate (getProp [(''d'', JStr ''01-05-2025'')]) ''d'' ''header.d'')
                         True)) = [INVALID_FORMAT]"
    by blast
  from c5 feb shapes(3,4)
  have r5: "map code (reported (given (validateIsoDate (getProp [(''d'', JStr ''2025-02-30'')]) ''d'' ''header.d'')
                         True)) = [INVALID_DATE]"
    by blast
  from c6 leap shapes(5,6)
  have "validateIsoDate (getProp [(''d'', JStr '' 2024-02-29 '')]) ''d'' ''header.d'' [] True =
     (Some (trim '' 2024-02-29 ''), [])"
    by blast
  then have r6: "validateIsoDate (getProp [(''d'', JStr '' 2024-02-29 '')]) ''d'' ''header.d'' [] True =
     (Some ''2024-02-29'', [])"
    by (simp only: trimmed)
  have o1: "isObject february30 =
     Some (getProp [(''business'', sampleBusiness), (''client'', sampleClient),
                    (''header'', JObj [(''invoiceNumber'', JStr ''INV-001''),
                                       (''issueDate'', JStr ''2025-02-30''), (''currency'', JStr ''EUR'')]),
                    (''lineItems'', JArr [sampleItem (JNum (Fin 1)) (JNum (Fin 100))])])"
    by (simp add: february30_def sampleInvoice_def isObject_def)
  have o2: "isObject (getProp [(''business'', sampleBusiness), (''client'', sampleClient),
                    (''header'', JObj [(''invoiceNumber'', JStr ''INV-001''),
                                       (''issueDate'', JStr ''2025-02-30''), (''currency'', JStr ''EUR'')]),
                    (''lineItems'', JArr [sampleItem (JNum (Fin 1)) (JNum (Fin 100))])] ''header'') =
        Some (getProp [(''invoiceNumber'', JStr ''INV-001''),
                       (''issueDate'', JStr ''2025-02-30''), (''currency'', JStr ''EUR'')])"
    by (simp add: getProp_def isObject_def)
  have o3: "getProp [(''invoiceNumber'', JStr ''INV-001''),
                     (''issueDate'', JStr ''2025-02-30''), (''currency'', JStr ''EUR'')] ''issueDate'' =
        JStr ''2025-02-30''"
    by (simp add: getProp_def)
  note c7 = validateIsoDate_by_cases
    [where input = february30 and s = "''2025-02-30''"
       and inputObj = "getProp [(''business'', sampleBusiness), (''client'', sampleClient),
                    (''header'', JObj [(''invoiceNumber'', JStr ''INV-001''),
                                       (''issueDate'', JStr ''2025-02-30''), (''currency'', JStr ''EUR'')]),
                    (''lineItems'', JArr [sampleItem (JNum (Fin 1)) (JNum (Fin 100))])]"
       and headerObj = "getProp [(''invoiceNumber'', JStr ''INV-001''),
                       (''issueDate'', JStr ''2025-02-30''), (''currency'', JStr ''EUR'')]"]
  from c7 o1 o2 o3 shapes(3,4)
  have r7: "validateDraft february30 = Invalid (issuesOf (validateDraft february30))"
    and r8: "hasIssue INVALID_DATE ''header.issueDate'' (issuesOf (validateDraft february30))"
    by blast+
  show ?thesis
    by (intro conjI native r1 invalid r2 empty r3 format shapes r4 feb r5 leap r6 o1 r7 r8)
qed

theorem validateIsoDate_empty_string_counterexample:
  "\<not> ISO_DATE_REGEX [] \<and>
   validateDraft emptyIssueDate =
     Invalid [issue MISSING_REQUIRED ''header.issueDate'' ''issueDate is required'' None] \<and>
   \<not> hasCode INVALID_FORMAT (issuesOf (validateDraft emptyIssueDate)) \<and>
   \<not> ISO_DATE_REGEX '' 2025-01-05 '' \<and>
   validateDraft (datedInvoice (JStr '' 2025-01-05 '') (JStr [])) = Valid validDraft"
  by code_simp

section \<open>The order of dates\<close>

lemma natOfDigits_acc: "natOfDigits acc cs = acc * 10 ^ length cs + natOfDigits 0 cs"
proof (induction cs arbitrary: acc)
  case Nil
  show ?case by simp
next
  case (Cons c cs)
  have "natOfDigits acc (c # cs) = natOfDigits (10 * acc + digitVal c) cs"
    by simp
  also have "\<dots> = (10 * acc + digitVal c) * 10 ^ length cs + natOfDigits 0 cs"
    by (rule Cons.IH)
  also have "natOfDigits 0 (c # cs) = digitVal c * 10 ^ length cs + natOfDigits 0 cs"
    using Cons.IH [of "digitVal c"] by simp
  ultimately show ?case
    by (simp add: algebra_simps)
qed

lemma natOfDigits_Cons:
  "natOfDigits 0 (c # cs) = digitVal c * 10 ^ length cs + natOfDigits 0 cs"
  using natOfDigits_acc [of "digitVal c" cs] by simp

lemma isDigit_digitVal: "isDigit c \<Longrightarrow> digitVal c < 10"
  by (auto simp: isDigit_def digitVal_def)

lemma natOfDigits_bound: "list_all isDigit cs \<Longrightarrow> natOfDigits 0 cs < 10 ^ length cs"
proof (induction cs)
  case Nil
  show ?case by simp
next
  case (Cons c cs)
  then have d: "digitVal c < 10" and b: "natOfDigits 0 cs < 10 ^ length cs"
    by (simp_all add: isDigit_digitVal)
  from d have "digitVal c * 10 ^ length cs \<le> 9 * 10 ^ length cs"
    by (intro mult_le_mono1) simp
  with b have "digitVal c * 10 ^ length cs + natOfDigits 0 cs < 9 * 10 ^ length cs + 10 ^ length cs"
    by linarith
  then show ?case
    unfolding natOfDigits_Cons by simp
qed

lemma leading_digit_decides:
  fixes a b u w n :: nat
  assumes "a < b" and "u < n"
  shows "a * n + u < b * n + w"
proof -
  from assms(1) have "Suc a * n \<le> b * n"
    by (simp only: Suc_le_eq [symmetric] mult_le_mono1)
  with assms(2) show ?thesis
    by simp
qed

lemma digit_order:
  "isDigit c \<Longrightarrow> isDigit d \<Longrightarrow> ((of_char c :: nat) < of_char d) = (digitVal c < digitVal d)"
  by (auto simp: isDigit_def digitVal_def)

lemma digit_equal:
  "isDigit c \<Longrightarrow> isDigit d \<Longrightarrow> (digitVal c = digitVal d) = (c = d)"
proof -
  assume "isDigit c" and "isDigit d"
  then have "48 \<le> (of_char c :: nat)" and "48 \<le> (of_char d :: nat)"
    by (simp_all add: isDigit_def)
  then have "(digitVal c = digitVal d) = ((of_char c :: nat) = of_char d)"
    unfolding digitVal_def by arith
  then show ?thesis
    by (simp only: of_char_eq_iff)
qed

lemma js_str_lt_digits:
  "length xs = length ys \<Longrightarrow> list_all isDigit xs \<Longrightarrow> list_all isDigit ys \<Longrightarrow>
     js_str_lt xs ys = (natOfDigits 0 xs < natOfDigits 0 ys) \<and>
     (xs = ys) = (natOfDigits 0 xs = natOfDigits 0 ys)"
proof (induction xs ys rule: list_induct2)
  case Nil
  show ?case by simp
next
  case (Cons x xs y ys)
  then have dx: "isDigit x" and dy: "isDigit y"
    and bx: "natOfDigits 0 xs < 10 ^ length xs" and by': "natOfDigits 0 ys < 10 ^ length xs"
    and ih: "js_str_lt xs ys = (natOfDigits 0 xs < natOfDigits 0 ys)"
            "(xs = ys) = (natOfDigits 0 xs = natOfDigits 0 ys)"
    using natOfDigits_bound [of xs] natOfDigits_bound [of ys] by simp_all
  consider (less) "digitVal x < digitVal y" | (greater) "digitVal y < digitVal x"
    | (same) "digitVal x = digitVal y"
    by linarith
  then show ?case
  proof cases
    case less
    then have "natOfDigits 0 (x # xs) < natOfDigits 0 (y # ys)"
      unfolding natOfDigits_Cons
      using leading_digit_decides [OF less bx, of "natOfDigits 0 ys"] Cons.hyps
      by simp
    moreover from less dx dy have "(of_char x :: nat) < of_char y"
      by (simp add: digit_order)
    moreover from less dx dy have "x \<noteq> y"
      by auto
    ultimately show ?thesis
      by simp
  next
    case greater
    then have "natOfDigits 0 (y # ys) < natOfDigits 0 (x # xs)"
      unfolding natOfDigits_Cons
      using leading_digit_decides [OF greater by', of "natOfDigits 0 xs"] Cons.hyps
      by simp
    moreover from greater dx dy have "(of_char y :: nat) < of_char x"
      by (simp add: digit_order)
    moreover from greater dx dy have "x \<noteq> y"
      by auto
    ultimately show ?thesis
      by simp
  next
    case same
    with dx dy have "x = y"
      by (simp add: digit_equal)
    with ih Cons.hyps same show ?thesis
      unfolding natOfDigits_Cons by simp
  qed
qed

lemma js_str_lt_irreflexive: "\<not> js_str_lt s s"
  by (induction s) simp_all

lemma js_str_lt_append:
  "length p = length q \<Longrightarrow>
     js_str_lt (p @ r) (q @ s) = (js_str_lt p q \<or> (p = q \<and> js_str_lt r s))"
proof (induction p q rule: list_induct2)
  case Nil
  show ?case by simp
next
  case (Cons x xs y ys)
  show ?case
  proof (cases "(of_char x :: nat) = of_char y")
    case True
    then have "x = y" by simp
    with Cons show ?thesis by simp
  next
    case False
    then have "x \<noteq> y" by auto
    with False show ?thesis by auto
  qed
qed

lemma ISO_DATE_REGEX_parts:
  assumes "ISO_DATE_REGEX s"
  shows "s = take 4 s @ ''-'' @ take 2 (drop 5 s) @ ''-'' @ drop 8 s"
    and "length (take 4 s) = 4" and "length (take 2 (drop 5 s)) = 2" and "length (drop 8 s) = 2"
    and "list_all isDigit (take 4 s)" and "list_all isDigit (take 2 (drop 5 s))"
    and "list_all isDigit (drop 8 s)"
proof -
  from assms have len: "length s = 10" and h1: "s ! 4 = CHR ''-''" and h2: "s ! 7 = CHR ''-''"
    by (simp_all add: ISO_DATE_REGEX_def)
  from len have "s ! 4 # drop (Suc 4) s = drop 4 s" and "s ! 7 # drop (Suc 7) s = drop 7 s"
    by (intro Cons_nth_drop_Suc; simp)+
  then have "drop 4 s = s ! 4 # drop 5 s" and "drop 7 s = s ! 7 # drop 8 s"
    by simp_all
  moreover have "drop 5 s = take 2 (drop 5 s) @ drop 7 s"
    using append_take_drop_id [of 2 "drop 5 s"] by simp
  moreover have "s = take 4 s @ drop 4 s"
    by simp
  ultimately have "s = take 4 s @ (s ! 4 # take 2 (drop 5 s) @ (s ! 7 # drop 8 s))"
    by metis
  with h1 h2 show "s = take 4 s @ ''-'' @ take 2 (drop 5 s) @ ''-'' @ drop 8 s"
    by simp
  from len show "length (take 4 s) = 4" "length (take 2 (drop 5 s)) = 2" "length (drop 8 s) = 2"
    by simp_all
  from assms show "list_all isDigit (take 4 s)" "list_all isDigit (take 2 (drop 5 s))"
    "list_all isDigit (drop 8 s)"
    by (simp_all add: ISO_DATE_REGEX_def)
qed

lemma js_str_lt_calendar:
  assumes "ISO_DATE_REGEX a" and "ISO_DATE_REGEX b"
  shows "js_str_lt a b = earlier (dateNumbers a) (dateNumbers b)"
proof -
  note pa = ISO_DATE_REGEX_parts [OF assms(1)] and pb = ISO_DATE_REGEX_parts [OF assms(2)]
  have y: "js_str_lt (take 4 a) (take 4 b) = (natOfDigits 0 (take 4 a) < natOfDigits 0 (take 4 b))"
    "(take 4 a = take 4 b) = (natOfDigits 0 (take 4 a) = natOfDigits 0 (take 4 b))"
    using js_str_lt_digits [of "take 4 a" "take 4 b"] pa(2,5) pb(2,5) by simp_all
  have m: "js_str_lt (take 2 (drop 5 a)) (take 2 (drop 5 b)) =
      (natOfDigits 0 (take 2 (drop 5 a)) < natOfDigits 0 (take 2 (drop 5 b)))"
    "(take 2 (drop 5 a) = take 2 (drop 5 b)) =
      (natOfDigits 0 (take 2 (drop 5 a)) = natOfDigits 0 (take 2 (drop 5 b)))"
    using js_str_lt_digits [of "take 2 (drop 5 a)" "take 2 (drop 5 b)"] pa(3,6) pb(3,6) by simp_all
  have d: "js_str_lt (drop 8 a) (drop 8 b) = (natOfDigits 0 (drop 8 a) < natOfDigits 0 (drop 8 b))"
    using js_str_lt_digits [of "drop 8 a" "drop 8 b"] pa(4,7) pb(4,7) by simp
  have "js_str_lt a b =
      js_str_lt (take 4 a @ ''-'' @ take 2 (drop 5 a) @ ''-'' @ drop 8 a)
                (take 4 b @ ''-'' @ take 2 (drop 5 b) @ ''-'' @ drop 8 b)"
    using pa(1) pb(1) by simp
  also have "\<dots> =
      (js_str_lt (take 4 a) (take 4 b) \<or>
       (take 4 a = take 4 b \<and>
        (js_str_lt (take 2 (drop 5 a)) (take 2 (drop 5 b)) \<or>
         (take 2 (drop 5 a) = take 2 (drop 5 b) \<and> js_str_lt (drop 8 a) (drop 8 b)))))"
    using js_str_lt_append [of "take 4 a" "take 4 b"]
      js_str_lt_append [of "take 2 (drop 5 a)" "take 2 (drop 5 b)"] pa(2,3) pb(2,3)
    by simp
  also have "\<dots> = earlier (dateNumbers a) (dateNumbers b)"
    unfolding y m d by (simp add: earlier_def dateNumbers_def)
  finally show ?thesis .
qed

lemma validateRequiredString_no_order:
  "\<not> hasCode DATE_ORDER (reported (validateRequiredString obj field pth))"
  by (cases "obj field")
     (simp_all add: reported_def validateRequiredString_def hasCode_def issue_def Let_def)

lemma validateOptionalString_no_order:
  "\<not> hasCode DATE_ORDER (reported (validateOptionalString obj field pth))"
  by (cases "obj field")
     (simp_all add: reported_def validateOptionalString_def hasCode_def issue_def)

lemma validateRequiredNumber_no_order:
  "\<not> hasCode DATE_ORDER (reported (given (validateRequiredNumber obj field pth) opts))"
  by (cases "obj field")
     (simp_all add: reported_def given_def validateRequiredNumber_def validateNumberValue_def
        isNumber_def hasCode_def issue_def Let_def)

lemma validateOptionalNumber_no_order:
  "\<not> hasCode DATE_ORDER (reported (given (validateOptionalNumber obj field pth) opts))"
  by (cases "obj field")
     (simp_all add: reported_def given_def validateOptionalNumber_def isNumber_def hasCode_def
        issue_def Let_def)

lemma validateIsoDate_no_order:
  "\<not> hasCode DATE_ORDER (reported (given (validateIsoDate obj field pth) required))"
  by (cases "obj field")
     (simp_all add: reported_def given_def validateIsoDate_def hasCode_def issue_def Let_def
        split: option.splits)

lemma validateCurrency_no_order:
  "\<not> hasCode DATE_ORDER (reported (validateCurrency obj field pth))"
  using validateRequiredString_no_order [of obj field pth]
  by (simp add: reported_def [of "validateCurrency obj field pth"] validateCurrency_def
      validateRequiredString_run hasCode_append Let_def)
     (simp add: hasCode_def issue_def)

lemma validateBusiness_no_order:
  "\<not> hasCode DATE_ORDER (reported (validateBusiness input basePath))"
proof (cases "isObject input")
  case None
  then show ?thesis
    by (simp add: reported_def validateBusiness_not_object hasCode_def issue_def)
next
  case (Some obj)
  then show ?thesis
    by (simp add: reported_validateBusiness hasCode_append validateRequiredString_no_order
        validateOptionalString_no_order)
qed

lemma validateClient_no_order:
  "\<not> hasCode DATE_ORDER (reported (validateClient input basePath))"
proof (cases "isObject input")
  case None
  then show ?thesis
    by (simp add: reported_def validateClient_not_object hasCode_def issue_def)
next
  case (Some obj)
  then show ?thesis
    by (simp add: reported_validateClient hasCode_append validateRequiredString_no_order
        validateOptionalString_no_order)
qed

lemma validateLineItem_no_order:
  "\<not> hasCode DATE_ORDER (reported (validateLineItem input basePath))"
proof (cases "isObject input")
  case None
  then show ?thesis
    by (simp add: reported_def validateLineItem_not_object hasCode_def issue_def)
next
  case (Some obj)
  then show ?thesis
    by (simp add: reported_validateLineItem hasCode_append validateRequiredString_no_order
        validateOptionalString_no_order validateRequiredNumber_no_order)
qed

lemma validateLineItems_no_order:
  "\<not> hasCode DATE_ORDER (reported (validateLineItems input basePath))"
proof (cases "\<exists>elems. input = JArr elems")
  case False
  then have "\<And>elems. input \<noteq> JArr elems" by blast
  then show ?thesis
    by (simp add: reported_def validateLineItems_not_array hasCode_def issue_def)
next
  case True
  then obtain elems where e: "input = JArr elems" by blast
  show ?thesis
  proof (cases "elems = []")
    case True
    with e show ?thesis
      by (simp add: reported_def validateLineItems_empty hasCode_def issue_def)
  next
    case False
    have "\<And>x. x \<in> set (concat (map (\<lambda>k. reported (validateLineItem (elems ! k)
                                        (basePath @ ''['' @ showNat k @ '']'')))
                                [0 ..< length elems])) \<Longrightarrow> code x \<noteq> DATE_ORDER"
      using validateLineItem_no_order
      by (auto simp: hasCode_def list_ex_iff)
    with False e show ?thesis
      by (auto simp: reported_validateLineItems hasCode_def list_ex_iff)
  qed
qed

lemma validateIsoDate_outcome_not_empty:
  "outcome (given (validateIsoDate obj field pth) required) = Some s \<Longrightarrow> s \<noteq> []"
  by (cases "obj field")
     (auto simp: outcome_def given_def validateIsoDate_def Let_def toISODate_not_empty
        ISO_DATE_REGEX_not_empty split: option.splits if_splits)

lemma validateHeader_date_order:
  assumes "isObject input = Some obj"
    and "outcome (given (validateIsoDate obj ''issueDate'' (basePath @ ''.issueDate'')) True) = Some issued"
    and "outcome (given (validateIsoDate obj ''dueDate'' (basePath @ ''.dueDate'')) False) = Some due"
  shows "hasCode DATE_ORDER (reported (validateHeader input basePath)) = js_str_lt due issued"
    and "hasIssue DATE_ORDER (basePath @ ''.dueDate'') (reported (validateHeader input basePath)) =
           js_str_lt due issued"
proof -
  from assms(2,3) have t: "truthy (Some issued)" "truthy (Some due)"
    using validateIsoDate_outcome_not_empty by (auto simp: truthy_def)
  have other: "\<And>xs. \<not> hasCode DATE_ORDER xs \<Longrightarrow> \<not> hasIssue DATE_ORDER (basePath @ ''.dueDate'') xs"
    by (auto simp: hasCode_def hasIssue_def list_ex_iff)
  note none = validateRequiredString_no_order validateIsoDate_no_order validateCurrency_no_order
    validateOptionalNumber_no_order validateOptionalString_no_order
  show "hasCode DATE_ORDER (reported (validateHeader input basePath)) = js_str_lt due issued"
    using t
    by (simp add: reported_validateHeader [OF assms(1)] assms(2,3) hasCode_append none)
       (simp add: hasCode_def issue_def)
  show "hasIssue DATE_ORDER (basePath @ ''.dueDate'') (reported (validateHeader input basePath)) =
          js_str_lt due issued"
    using t
    by (simp add: reported_validateHeader [OF assms(1)] assms(2,3) hasIssue_append none other)
       (simp add: hasIssue_def issue_def)
qed

text \<open>
  C6. When the issue date and the due date of the header both validate on their
  own, \<open>validateDraft\<close> reports a DATE_ORDER issue, at the path \<open>header.dueDate\<close>,
  exactly when the due date is lexicographically less than the issue date as a
  string. On two strings of the shape YYYY-MM-DD this order is the order of the
  calendar on their year, month and day. A due date equal to the issue date is
  never less than it, so it is accepted; a due date on an earlier day is rejected.
\<close>

theorem validateDraft_date_order:
  "(isObject input = Some inputObj \<and> isObject (inputObj ''header'') = Some headerObj \<and>
    outcome (given (validateIsoDate headerObj ''issueDate'' ''header.issueDate'') True) = Some issued \<and>
    outcome (given (validateIsoDate headerObj ''dueDate'' ''header.dueDate'') False) = Some due \<longrightarrow>
      hasIssue DATE_ORDER ''header.dueDate'' (issuesOf (validateDraft input)) = js_str_lt due issued \<and>
      hasCode DATE_ORDER (issuesOf (validateDraft input)) = js_str_lt due issued) \<and>
   (ISO_DATE_REGEX a \<and> ISO_DATE_REGEX b \<longrightarrow>
      js_str_lt a b = earlier (dateNumbers a) (dateNumbers b)) \<and>
   \<not> js_str_lt a a"
proof -
  have order:
    "hasIssue DATE_ORDER ''header.dueDate'' (issuesOf (validateDraft input)) = js_str_lt due issued \<and>
     hasCode DATE_ORDER (issuesOf (validateDraft input)) = js_str_lt due issued"
    if o: "isObject input = Some inputObj" and h: "isObject (inputObj ''header'') = Some headerObj"
      and i: "outcome (given (validateIsoDate headerObj ''issueDate'' ''header.issueDate'') True) = Some issued"
      and d: "outcome (given (validateIsoDate headerObj ''dueDate'' ''header.dueDate'') False) = Some due"
  proof -
    have other: "\<And>xs. \<not> hasCode DATE_ORDER xs \<Longrightarrow> \<not> hasIssue DATE_ORDER ''header.dueDate'' xs"
      by (auto simp: hasCode_def hasIssue_def list_ex_iff)
    from validateHeader_date_order [of "inputObj ''header''" headerObj "''header''" issued due] h i d
    have hd: "hasCode DATE_ORDER (reported (validateHeader (inputObj ''header'') ''header'')) =
                js_str_lt due issued"
      and hi: "hasIssue DATE_ORDER ''header.dueDate'' (reported (validateHeader (inputObj ''header'') ''header'')) =
                js_str_lt due issued"
      by simp_all
    show ?thesis
      by (simp add: issuesOf_validateDraft [OF o] hasCode_append hasIssue_append hd hi other
          validateBusiness_no_order validateClient_no_order validateLineItems_no_order)
  qed
  from order js_str_lt_calendar [of a b] js_str_lt_irreflexive [of a] show ?thesis
    by blast
qed

theorem validateDraft_date_order_witness:
  "isObject (datedInvoice (JStr ''2025-01-15'') (JStr ''2025-01-14'')) =
     Some (getProp [(''business'', sampleBusiness), (''client'', sampleClient),
                    (''header'', JObj [(''invoiceNumber'', JStr ''INV-001''),
                                       (''issueDate'', JStr ''2025-01-15''),
                                       (''dueDate'', JStr ''2025-01-14''), (''currency'', JStr ''EUR'')]),
                    (''lineItems'', JArr [sampleItem (JNum (Fin 1)) (JNum (Fin 100))])]) \<and>
   outcome (given (validateIsoDate
                     (getProp [(''invoiceNumber'', JStr ''INV-001''), (''issueDate'', JStr ''2025-01-15''),
                               (''dueDate'', JStr ''2025-01-14''), (''currency'', JStr ''EUR'')])
                     ''issueDate'' ''header.issueDate'') True) = Some ''2025-01-15'' \<and>
   outcome (given (validateIsoDate
                     (getProp [(''invoiceNumber'', JStr ''INV-001''), (''issueDate'', JStr ''2025-01-15''),
                               (''dueDate'', JStr ''2025-01-14''), (''currency'', JStr ''EUR'')])
                     ''dueDate'' ''header.dueDate'') False) = Some ''2025-01-14'' \<and>
   ISO_DATE_REGEX ''2025-01-14'' \<and> ISO_DATE_REGEX ''2025-01-15'' \<and>
   earlier (dateNumbers ''2025-01-14'') (dateNumbers ''2025-01-15'') \<and>
   js_str_lt ''2025-01-14'' ''2025-01-15'' \<and>
   hasIssue DATE_ORDER ''header.dueDate''
     (issuesOf (validateDraft (datedInvoice (JStr ''2025-01-15'') (JStr ''2025-01-14'')))) \<and>
   \<not> js_str_lt ''2025-01-15'' ''2025-01-15'' \<and>
   validateDraft (datedInvoice (JStr ''2025-01-15'') (JStr ''2025-01-15'')) =
     Valid (sampleDraft ((plainHeader ''2025-01-15'')\<lparr>InvoiceHeader.dueDate := Some ''2025-01-15''\<rparr>)
              [serviceItem (Fin 1) (Fin 100)])"
proof -
  note t = validateDraft_date_order
    [where input = "datedInvoice (JStr ''2025-01-15'') (JStr ''2025-01-14'')"
       and inputObj = "getProp [(''business'', sampleBusiness), (''client'', sampleClient),
                    (''header'', JObj [(''invoiceNumber'', JStr ''INV-001''),
                                       (''issueDate'', JStr ''2025-01-15''),
                                       (''dueDate'', JStr ''2025-01-14''), (''currency'', JStr ''EUR'')]),
                    (''lineItems'', JArr [sampleItem (JNum (Fin 1)) (JNum (Fin 100))])]"
       and headerObj = "getProp [(''invoiceNumber'', JStr ''INV-001''), (''issueDate'', JStr ''2025-01-15''),
                               (''dueDate'', JStr ''2025-01-14''), (''currency'', JStr ''EUR'')]"
       and issued = "''2025-01-15''" and due = "''2025-01-14''"
       and a = "''2025-01-14''" and b = "''2025-01-15''"]
  note same = validateDraft_date_order [where a = "''2025-01-15''"]
  have o1: "isObject (datedInvoice (JStr ''2025-01-15'') (JStr ''2025-01-14'')) =
     Some (getProp [(''business'', sampleBusiness), (''client'', sampleClient),
                    (''header'', JObj [(''invoiceNumber'', JStr ''INV-001''),
                                       (''issueDate'', JStr ''2025-01-15''),
                                       (''dueDate'', JStr ''2025-01-14''), (''currency'', JStr ''EUR'')]),
                    (''lineItems'', JArr [sampleItem (JNum (Fin 1)) (JNum (Fin 100))])])"
    by (simp add: datedInvoice_def sampleInvoice_def isObject_def)
  have o2: "isObject (getProp [(''business'', sampleBusiness), (''client'', sampleClient),
                    (''header'', JObj [(''invoiceNumber'', JStr ''INV-001''),
                                       (''issueDate'', JStr ''2025-01-15''),
                                       (''dueDate'', JStr ''2025-01-14''), (''currency'', JStr ''EUR'')]),
                    (''lineItems'', JArr [sampleItem (JNum (Fin 1)) (JNum (Fin 100))])] ''header'') =
     Some (getProp [(''invoiceNumber'', JStr ''INV-001''), (''issueDate'', JStr ''2025-01-15''),
                    (''dueDate'', JStr ''2025-01-14''), (''currency'', JStr ''EUR'')])"
    by (simp add: getProp_def isObject_def)
  have i: "outcome (given (validateIsoDate
                     (getProp [(''invoiceNumber'', JStr ''INV-001''), (''issueDate'', JStr ''2025-01-15''),
                               (''dueDate'', JStr ''2025-01-14''), (''currency'', JStr ''EUR'')])
                     ''issueDate'' ''header.issueDate'') True) = Some ''2025-01-15''"
    and d: "outcome (given (validateIsoDate
                     (getProp [(''invoiceNumber'', JStr ''INV-001''), (''issueDate'', JStr ''2025-01-15''),
                               (''dueDate'', JStr ''2025-01-14''), (''currency'', JStr ''EUR'')])
                     ''dueDate'' ''header.dueDate'') False) = Some ''2025-01-14''"
    by code_simp+
  have shapes: "ISO_DATE_REGEX ''2025-01-14''" "ISO_DATE_REGEX ''2025-01-15''"
    and before: "earlier (dateNumbers ''2025-01-14'') (dateNumbers ''2025-01-15'')"
    by code_simp+
  from t shapes before have less: "js_str_lt ''2025-01-14'' ''2025-01-15''"
    by blast
  from t o1 o2 i d less
  have rejected: "hasIssue DATE_ORDER ''header.dueDate''
     (issuesOf (validateDraft (datedInvoice (JStr ''2025-01-15'') (JStr ''2025-01-14''))))"
    by blast
  from same have equal: "\<not> js_str_lt ''2025-01-15'' ''2025-01-15''"
    by blast
  have accepted: "validateDraft (datedInvoice (JStr ''2025-01-15'') (JStr ''2025-01-15'')) =
     Valid (sampleDraft ((plainHeader ''2025-01-15'')\<lparr>InvoiceHeader.dueDate := Some ''2025-01-15''\<rparr>)
              [serviceItem (Fin 1) (Fin 100)])"
    by code_simp
  show ?thesis
    by (intro conjI o1 i d shapes before less rejected equal accepted)
qed

end
